theory Spec2Isabelle
  imports Complex_Main
begin

section \<open>Strings and numbers of the host language\<close>

text \<open>
  A string is the sequence of its Unicode code points. Text of the source is written
  with \<open>str\<close>, which reads an ASCII literal.
\<close>

type_synonym code_point = nat
type_synonym jsstring = "code_point list"

definition str :: "string \<Rightarrow> jsstring" where
  "str s = map of_char s"

text \<open>
  A number is an IEEE-754 double: a finite value (held exactly, as a rational), NaN or an
  infinity. The two zeros are one value here: comparison, truthiness, \<open>toFixed\<close> and
  conversion to a string, the only operations the program applies, do not tell them apart.
\<close>

datatype jsnum = Finite rat | NaN | PosInfinity | NegInfinity

text \<open>\<open>a < b\<close> and \<open>a > b\<close> on numbers: every comparison with NaN is false.\<close>

fun num_less :: "jsnum \<Rightarrow> jsnum \<Rightarrow> bool" where
  "num_less NaN _ = False"
| "num_less _ NaN = False"
| "num_less (Finite a) (Finite b) = (a < b)"
| "num_less (Finite a) PosInfinity = True"
| "num_less (Finite a) NegInfinity = False"
| "num_less PosInfinity _ = False"
| "num_less NegInfinity NegInfinity = False"
| "num_less NegInfinity _ = True"

definition num_greater :: "jsnum \<Rightarrow> jsnum \<Rightarrow> bool" where
  "num_greater a b = num_less b a"

text \<open>Truthiness, as \<open>||\<close> tests it: a number is falsy when it is zero or NaN, a string when
  it is empty, an absent (undefined) field always.\<close>

fun truthy_num :: "jsnum \<Rightarrow> bool" where
  "truthy_num (Finite r) = (r \<noteq> 0)"
| "truthy_num NaN = False"
| "truthy_num PosInfinity = True"
| "truthy_num NegInfinity = True"

definition truthy_str :: "jsstring \<Rightarrow> bool" where
  "truthy_str s = (s \<noteq> [])"

subsection \<open>Decimal digits\<close>

definition digit_char :: "nat \<Rightarrow> code_point" where
  "digit_char d = 48 + d"

fun decimal :: "nat \<Rightarrow> jsstring" where
  "decimal n = (if n < 10 then [digit_char n] else decimal (n div 10) @ [digit_char (n mod 10)])"

declare decimal.simps [simp del]

definition pow2 :: "int \<Rightarrow> rat" where
  "pow2 e = (if 0 \<le> e then 2 ^ nat e else 1 / 2 ^ nat (- e))"

definition pow10 :: "int \<Rightarrow> rat" where
  "pow10 e = (if 0 \<le> e then 10 ^ nat e else 1 / 10 ^ nat (- e))"

subsection \<open>Rounding a real value to a double\<close>

fun bit_length :: "nat \<Rightarrow> nat" where
  "bit_length n = (if n = 0 then 0 else Suc (bit_length (n div 2)))"

declare bit_length.simps [simp del]

text \<open>\<open>floor_log2 q\<close> and \<open>floor_log10 q\<close> for \<open>q > 0\<close>: the quotient of the lengths of
  numerator and denominator is off by at most one.\<close>

definition floor_log2 :: "rat \<Rightarrow> int" where
  "floor_log2 q =
     (let a = fst (quotient_of q); b = snd (quotient_of q);
          d = int (bit_length (nat a)) - int (bit_length (nat b))
      in if pow2 d \<le> q then d else d - 1)"

definition floor_log10 :: "rat \<Rightarrow> int" where
  "floor_log10 q =
     (let a = fst (quotient_of q); b = snd (quotient_of q);
          d = int (length (decimal (nat a))) - int (length (decimal (nat b)))
      in if pow10 d \<le> q then d else d - 1)"

definition round_half_even :: "rat \<Rightarrow> int" where
  "round_half_even q =
     (let n = \<lfloor>q\<rfloor>; r = q - of_int n
      in if r < 1 / 2 then n else if 1 / 2 < r then n + 1
         else if even n then n else n + 1)"

text \<open>Round to nearest, ties to even, for \<open>q \<ge> 0\<close>: 53 significant bits, the least
  exponent -1074 (subnormals), overflow to infinity.\<close>

definition to_binary64 :: "rat \<Rightarrow> jsnum" where
  "to_binary64 q =
     (if q = 0 then Finite 0
      else let e = max (floor_log2 q - 52) (- 1074);
               v = of_int (round_half_even (q / pow2 e)) * pow2 e
           in if pow2 1024 \<le> v then PosInfinity else Finite v)"

text \<open>
  A decimal literal \<open>q\<close> of the source denotes the double \<open>m * 2 ^ e\<close> when that double is
  normalised and strictly nearer to \<open>q\<close> than half a unit in its last place.
\<close>

definition binary64 :: "int \<Rightarrow> int \<Rightarrow> rat" where
  "binary64 m e = of_int m * pow2 e"

definition denotes :: "rat \<Rightarrow> int \<Rightarrow> int \<Rightarrow> bool" where
  "denotes q m e \<longleftrightarrow>
     2 ^ 52 \<le> \<bar>m\<bar> \<and> \<bar>m\<bar> < 2 ^ 53 \<and> - 1074 \<le> e \<and> e \<le> 971 \<and>
     2 * \<bar>q - binary64 m e\<bar> < pow2 e"

subsection \<open>Number::toString\<close>

text \<open>
  ECMAScript: for finite nonzero \<open>x\<close>, take integers \<open>n\<close>, \<open>k\<close>, \<open>s\<close> with \<open>k \<ge> 1\<close>,
  \<open>10 ^ (k - 1) \<le> s < 10 ^ k\<close>, \<open>s * 10 ^ (n - k)\<close> rounding to \<open>x\<close>, and \<open>k\<close> as small as
  possible; of several \<open>s\<close> the one nearest to \<open>x\<close>, and of two equally near the even
  one. For each \<open>k\<close> the candidates are the two neighbours of \<open>x / 10 ^ (n - k)\<close>, for
  the two \<open>n\<close> that the size of \<open>x\<close> allows.
\<close>

definition digit_candidates :: "rat \<Rightarrow> nat \<Rightarrow> (rat \<times> int \<times> nat) list" where
  "digit_candidates x k =
     (let n0 = floor_log10 x + 1
      in concat (map (\<lambda>n.
           let t = nat \<lfloor>x / pow10 (n - int k)\<rfloor>
           in concat (map (\<lambda>s.
                if 10 ^ (k - 1) \<le> s \<and> s < 10 ^ k \<and>
                   to_binary64 (of_nat s * pow10 (n - int k)) = Finite x
                then [(\<bar>of_nat s * pow10 (n - int k) - x\<bar>, n, s)] else []) [t, t + 1]))
         [n0, n0 + 1]))"

fun nearest_candidate :: "(rat \<times> int \<times> nat) list \<Rightarrow> (rat \<times> int \<times> nat) option" where
  "nearest_candidate [] = None"
| "nearest_candidate (c # cs) =
     (case nearest_candidate cs of
        None \<Rightarrow> Some c
      | Some c' \<Rightarrow>
          if fst c' < fst c \<or> (fst c' = fst c \<and> even (snd (snd c'))) then Some c'
          else Some c)"

text \<open>The search for the least \<open>k\<close>; 17 digits identify every double. \<open>shortest_digits\<close>
  returns \<open>(n, k, s)\<close>.\<close>

fun search_digits :: "rat \<Rightarrow> nat \<Rightarrow> nat \<Rightarrow> int \<times> nat \<times> nat" where
  "search_digits x 0 k = (floor_log10 x + 1, k, nat \<lfloor>x / pow10 (floor_log10 x + 1 - int k)\<rfloor>)"
| "search_digits x (Suc fuel) k =
     (case nearest_candidate (digit_candidates x k) of
        Some (d, n, s) \<Rightarrow> (n, k, s)
      | None \<Rightarrow> search_digits x fuel (Suc k))"

definition shortest_digits :: "rat \<Rightarrow> int \<times> nat \<times> nat" where
  "shortest_digits x = search_digits x 17 1"

definition positive_toString :: "rat \<Rightarrow> jsstring" where
  "positive_toString x =
     (case shortest_digits x of (n, k, s) \<Rightarrow>
        let ds = decimal s in
        if - 5 \<le> n \<and> n \<le> 21 then
          (if int k \<le> n then ds @ replicate (nat (n - int k)) (digit_char 0)
           else if 0 < n then take (nat n) ds @ str ''.'' @ drop (nat n) ds
           else str ''0.'' @ replicate (nat (- n)) (digit_char 0) @ ds)
        else
          (let e = n - 1; sign = (if e < 0 then str ''-'' else str ''+'')
           in if k = 1 then ds @ str ''e'' @ sign @ decimal (nat \<bar>e\<bar>)
              else take 1 ds @ str ''.'' @ drop 1 ds @ str ''e'' @ sign @ decimal (nat \<bar>e\<bar>)))"

fun Number_toString :: "jsnum \<Rightarrow> jsstring" where
  "Number_toString NaN = str ''NaN''"
| "Number_toString PosInfinity = str ''Infinity''"
| "Number_toString NegInfinity = str ''-Infinity''"
| "Number_toString (Finite r) =
     (if r = 0 then str ''0''
      else if r < 0 then str ''-'' @ positive_toString (- r)
      else positive_toString r)"

subsection \<open>Number.prototype.toFixed\<close>

text \<open>
  ECMAScript: a non-finite number is converted as by \<open>toString\<close>; a value of magnitude
  \<open>10 ^ 21\<close> or more likewise (after its sign); otherwise \<open>n\<close> is the integer nearest to
  \<open>x * 10 ^ f\<close>, the larger of two equally near, and the result has \<open>f\<close> digits after the point.
\<close>

definition toFixed :: "nat \<Rightarrow> jsnum \<Rightarrow> jsstring" where
  "toFixed f x =
     (case x of
        Finite r \<Rightarrow>
          (let s = (if r < 0 then str ''-'' else []); a = \<bar>r\<bar>
           in if 10 ^ 21 \<le> a then s @ Number_toString (Finite a)
              else
                let n = nat \<lfloor>a * 10 ^ f + 1 / 2\<rfloor>;
                    m = decimal n;
                    m' = (if f \<noteq> 0 then
                            (let k = length m;
                                 z = (if k \<le> f then replicate (f + 1 - k) (digit_char 0) @ m else m);
                                 k' = (if k \<le> f then f + 1 else k)
                             in take (k' - f) z @ str ''.'' @ drop (k' - f) z)
                          else m)
                in s @ m')
      | _ \<Rightarrow> Number_toString x)"

subsection \<open>String.prototype.toUpperCase\<close>

text \<open>
  The Unicode default case conversion maps each code point to its uppercase mapping, which
  may be longer than one code point. ASCII is written out, and so are the code points outside
  ASCII whose uppercase mapping consists of ASCII letters (U+00DF sharp s, U+0131 dotless i,
  U+017F long s, the ligatures U+FB00 to U+FB06). The rest of the Unicode table is the
  parameter \<open>uc\<close>.
\<close>

definition upper_code_point :: "(code_point \<Rightarrow> jsstring) \<Rightarrow> code_point \<Rightarrow> jsstring" where
  "upper_code_point uc c =
     (if c < 128 then (if 97 \<le> c \<and> c \<le> 122 then [c - 32] else [c])
      else if c = 223 then str ''SS''
      else if c = 305 then str ''I''
      else if c = 383 then str ''S''
      else if c = 64256 then str ''FF''
      else if c = 64257 then str ''FI''
      else if c = 64258 then str ''FL''
      else if c = 64259 then str ''FFI''
      else if c = 64260 then str ''FFL''
      else if c = 64261 then str ''ST''
      else if c = 64262 then str ''ST''
      else uc c)"

definition toUpperCase :: "(code_point \<Rightarrow> jsstring) \<Rightarrow> jsstring \<Rightarrow> jsstring" where
  "toUpperCase uc s = concat (map (upper_code_point uc) s)"

text \<open>\<open>Array.prototype.join\<close>.\<close>

fun join :: "jsstring \<Rightarrow> jsstring list \<Rightarrow> jsstring" where
  "join sep [] = []"
| "join sep [x] = x"
| "join sep (x # y # ys) = x @ sep @ join sep (y # ys)"

section \<open>Constants and configuration\<close>

definition NWS_API_BASE :: jsstring where
  "NWS_API_BASE = str ''https://api.weather.gov''"

definition USER_AGENT :: jsstring where
  "USER_AGENT = str ''weather-app/1.0''"

definition COORDINATE_PRECISION :: nat where
  "COORDINATE_PRECISION = 4"

definition MAX_RETRIES :: nat where
  "MAX_RETRIES = 3"

definition RETRY_DELAY :: nat where
  "RETRY_DELAY = 1000"

section \<open>Error handling\<close>

datatype error_code =
    INVALID_STATE_CODE | INVALID_LATITUDE | INVALID_LONGITUDE
  | NETWORK_ERROR | API_REQUEST_FAILED | MAX_RETRIES_EXCEEDED
  | FORECAST_URL_MISSING | ALERTS_RETRIEVAL_FAILED | FORECAST_RETRIEVAL_FAILED

record WeatherServiceError =
  message :: jsstring
  code :: error_code
  statusCode :: "nat option"
  retryable :: bool

text \<open>The constructor; the source leaves \<open>statusCode\<close> undefined and \<open>retryable\<close> false
  where it passes two arguments.\<close>

definition new_error :: "jsstring \<Rightarrow> error_code \<Rightarrow> WeatherServiceError" where
  "new_error msg c = \<lparr>message = msg, code = c, statusCode = None, retryable = False\<rparr>"

text \<open>What a rejected promise carries that is not a \<open>WeatherServiceError\<close>: an \<open>Error\<close> with
  its message, or some other value.\<close>

datatype thrown = Error jsstring | NonError

fun error_message :: "thrown \<Rightarrow> jsstring" where
  "error_message (Error m) = m"
| "error_message NonError = str ''Unknown error''"

section \<open>Utility functions\<close>

definition formatCoordinates :: "jsnum \<Rightarrow> jsnum \<Rightarrow> jsstring" where
  "formatCoordinates lat lon =
     toFixed COORDINATE_PRECISION lat @ str '','' @ toFixed COORDINATE_PRECISION lon"

text \<open>The test of \<open>/^[A-Z]{2}$/\<close>: the whole string is two capital ASCII letters.\<close>

definition two_capitals :: "jsstring \<Rightarrow> bool" where
  "two_capitals s = (length s = 2 \<and> list_all (\<lambda>c. 65 \<le> c \<and> c \<le> 90) s)"

definition validateStateCode ::
  "(code_point \<Rightarrow> jsstring) \<Rightarrow> jsstring \<Rightarrow> WeatherServiceError + jsstring" where
  "validateStateCode uc state =
     (let stateCode = toUpperCase uc state
      in if \<not> two_capitals stateCode then
           Inl (new_error
                  (str ''Invalid state code: '' @ state @
                   str ''. Must be a two-letter state code (e.g., CA, NY)'')
                  INVALID_STATE_CODE)
         else Inr stateCode)"

definition validateCoordinates :: "jsnum \<Rightarrow> jsnum \<Rightarrow> WeatherServiceError + unit" where
  "validateCoordinates latitude longitude =
     (if num_less latitude (Finite (- 90)) \<or> num_greater latitude (Finite 90) then
        Inl (new_error
               (str ''Invalid latitude: '' @ Number_toString latitude @
                str ''. Must be between -90 and 90'')
               INVALID_LATITUDE)
      else if num_less longitude (Finite (- 180)) \<or> num_greater longitude (Finite 180) then
        Inl (new_error
               (str ''Invalid longitude: '' @ Number_toString longitude @
                str ''. Must be between -180 and 180'')
               INVALID_LONGITUDE)
      else Inr ())"

section \<open>API client\<close>

text \<open>
  The upstream service is an oracle: the outcome of the \<open>i\<close>-th request of a run (counted
  from 0) for the request sent. An outcome is a rejection (transport failure) or a response;
  the field \<open>json\<close> of a response is the outcome of \<open>response.json()\<close>, a rejection when the
  body does not parse. The world records the requests sent, the delays slept and the
  warnings written.
\<close>

record request =
  url :: jsstring
  headers :: "(jsstring \<times> jsstring) list"

record 'a response =
  status :: nat
  statusText :: jsstring
  json :: "thrown + 'a"

datatype 'a fetch_result = Rejects thrown | Resolves "'a response"

type_synonym 'a upstream = "nat \<Rightarrow> request \<Rightarrow> 'a fetch_result"

record world =
  requests :: "request list"
  sleeps :: "nat list"
  warnings :: "jsstring list"

definition ok :: "'a response \<Rightarrow> bool" where
  "ok r = (200 \<le> status r \<and> status r \<le> 299)"

record NWSAPIClient =
  baseUrl :: jsstring
  userAgent :: jsstring

datatype 'a step = Return 'a | Throw WeatherServiceError | Continue

text \<open>The warning and the sleep before the next attempt.\<close>

definition retry_wait :: "nat \<Rightarrow> world \<Rightarrow> world" where
  "retry_wait attempt w =
     w\<lparr>warnings := warnings w @
          [str ''Attempt '' @ decimal attempt @ str '' failed, retrying in '' @
           decimal RETRY_DELAY @ str ''ms...''],
       sleeps := sleeps w @ [RETRY_DELAY]\<rparr>"

text \<open>The \<open>catch\<close> clause for an error that is not a \<open>WeatherServiceError\<close>.\<close>

definition catch_clause :: "thrown \<Rightarrow> nat \<Rightarrow> nat \<Rightarrow> world \<Rightarrow> 'a step \<times> world" where
  "catch_clause err retries attempt w =
     (if attempt = retries then
        (Throw \<lparr>message = str ''Network error: '' @ error_message err,
                code = NETWORK_ERROR, statusCode = None, retryable = True\<rparr>, w)
      else (Continue, retry_wait attempt w))"

text \<open>One pass through the body of the loop.\<close>

definition attempt_body ::
  "'a upstream \<Rightarrow> request \<Rightarrow> nat \<Rightarrow> nat \<Rightarrow> world \<Rightarrow> 'a step \<times> world" where
  "attempt_body fetch req retries attempt w =
     (let w1 = w\<lparr>requests := requests w @ [req]\<rparr>
      in case fetch (length (requests w)) req of
           Rejects err \<Rightarrow> catch_clause err retries attempt w1
         | Resolves r \<Rightarrow>
             if \<not> ok r then
               (let errorMessage = str ''HTTP '' @ decimal (status r) @ str '': '' @ statusText r;
                    isRetryable = (500 \<le> status r \<or> status r = 429)
                in if attempt = retries then
                     (Throw \<lparr>message = errorMessage, code = API_REQUEST_FAILED,
                             statusCode = Some (status r), retryable = isRetryable\<rparr>, w1)
                   else if isRetryable then (Continue, retry_wait attempt w1)
                   else
                     (Throw \<lparr>message = errorMessage, code = API_REQUEST_FAILED,
                             statusCode = Some (status r), retryable = False\<rparr>, w1))
             else
               (case json r of
                  Inr v \<Rightarrow> (Return v, w1)
                | Inl err \<Rightarrow> catch_clause err retries attempt w1))"

function attempt_loop ::
  "'a upstream \<Rightarrow> request \<Rightarrow> nat \<Rightarrow> nat \<Rightarrow> world \<Rightarrow> (WeatherServiceError + 'a) \<times> world" where
  "attempt_loop fetch req retries attempt w =
     (if attempt \<le> retries then
        (case attempt_body fetch req retries attempt w of
           (Return v, w') \<Rightarrow> (Inr v, w')
         | (Throw e, w') \<Rightarrow> (Inl e, w')
         | (Continue, w') \<Rightarrow> attempt_loop fetch req retries (attempt + 1) w')
      else (Inl (new_error (str ''Max retries exceeded'') MAX_RETRIES_EXCEEDED), w))"
  by pat_completeness auto
termination
  by (relation "measure (\<lambda>(fetch, req, retries, attempt, w). retries + 1 - attempt)") auto

declare attempt_loop.simps [simp del]

definition request_headers :: "NWSAPIClient \<Rightarrow> (jsstring \<times> jsstring) list" where
  "request_headers client =
     [(str ''User-Agent'', userAgent client), (str ''Accept'', str ''application/geo+json'')]"

definition makeRequest ::
  "NWSAPIClient \<Rightarrow> 'a upstream \<Rightarrow> jsstring \<Rightarrow> nat \<Rightarrow> world \<Rightarrow> (WeatherServiceError + 'a) \<times> world" where
  "makeRequest client fetch u retries w =
     attempt_loop fetch \<lparr>url = u, headers = request_headers client\<rparr> retries 1 w"

text \<open>
  The payload shapes. A parsed body, and an element of a parsed array, is an object of the
  declared shape or \<open>null\<close>; the \<open>properties\<close> of an alert feature are an object, \<open>null\<close> or
  absent (\<open>undefined\<close>). A field of a string or a number, and a field the code reads with
  \<open>?.\<close> or \<open>|| []\<close>, is optional: \<open>None\<close> is the field absent or \<open>null\<close>.
\<close>

datatype 'a js = Undefined | Null | Obj 'a

text \<open>Reading a property of \<open>undefined\<close> or \<open>null\<close> throws a \<open>TypeError\<close>; the message is the
  one V8 gives. \<open>get_object v p\<close> is the object that \<open>v.p\<close> reads from.\<close>

definition cannot_read :: "string \<Rightarrow> string \<Rightarrow> thrown" where
  "cannot_read v p =
     Error (str ''Cannot read properties of '' @ str v @ str '' (reading '' @ [39] @ str p @
            [39] @ str '')'')"

fun get_object :: "'a js \<Rightarrow> string \<Rightarrow> thrown + 'a" where
  "get_object Undefined p = Inl (cannot_read ''undefined'' p)"
| "get_object Null p = Inl (cannot_read ''null'' p)"
| "get_object (Obj x) p = Inr x"

record alert_properties =
  event :: "jsstring option"
  areaDesc :: "jsstring option"
  severity :: "jsstring option"
  alert_status :: "jsstring option"
  headline :: "jsstring option"

record AlertFeature =
  properties :: alert_properties

record ForecastPeriod =
  name :: "jsstring option"
  temperature :: "jsnum option"
  temperatureUnit :: "jsstring option"
  windSpeed :: "jsstring option"
  windDirection :: "jsstring option"
  shortForecast :: "jsstring option"

text \<open>An element of \<open>features\<close>: \<open>null\<close>, or an object with its \<open>properties\<close>.\<close>

type_synonym feature_value = "alert_properties js js"

record AlertsResponse =
  features :: "feature_value list option"

record points_properties =
  forecast :: "jsstring option"

record PointsResponse =
  points_properties :: "points_properties option"

record forecast_properties =
  periods :: "ForecastPeriod js list option"

record ForecastResponse =
  forecast_properties :: "forecast_properties option"

definition NWSAPIClient_getAlerts ::
  "NWSAPIClient \<Rightarrow> AlertsResponse js upstream \<Rightarrow> jsstring \<Rightarrow> world \<Rightarrow>
   (WeatherServiceError + AlertsResponse js) \<times> world" where
  "NWSAPIClient_getAlerts client fetch stateCode w =
     makeRequest client fetch (baseUrl client @ str ''/alerts?area='' @ stateCode) MAX_RETRIES w"

definition getGridPoint ::
  "NWSAPIClient \<Rightarrow> PointsResponse js upstream \<Rightarrow> jsnum \<Rightarrow> jsnum \<Rightarrow> world \<Rightarrow>
   (WeatherServiceError + PointsResponse js) \<times> world" where
  "getGridPoint client fetch latitude longitude w =
     (let coordinates = formatCoordinates latitude longitude
      in makeRequest client fetch (baseUrl client @ str ''/points/'' @ coordinates) MAX_RETRIES w)"

definition NWSAPIClient_getForecast ::
  "NWSAPIClient \<Rightarrow> ForecastResponse js upstream \<Rightarrow> jsstring \<Rightarrow> world \<Rightarrow>
   (WeatherServiceError + ForecastResponse js) \<times> world" where
  "NWSAPIClient_getForecast client fetch forecastUrl w =
     makeRequest client fetch forecastUrl MAX_RETRIES w"

section \<open>Data formatters\<close>

text \<open>\<open>x || d\<close> on an optional string, and on the optional temperature inside a template.\<close>

fun str_or :: "jsstring option \<Rightarrow> jsstring \<Rightarrow> jsstring" where
  "str_or None d = d"
| "str_or (Some s) d = (if truthy_str s then s else d)"

fun num_or :: "jsnum option \<Rightarrow> jsstring \<Rightarrow> jsstring" where
  "num_or None d = d"
| "num_or (Some x) d = (if truthy_num x then Number_toString x else d)"

definition newline :: jsstring where
  "newline = [10]"

text \<open>The degree sign U+00B0 of the temperature line, as the compiled source has it.\<close>

definition degree_sign :: jsstring where
  "degree_sign = [176]"

definition formatAlert :: "AlertFeature \<Rightarrow> jsstring" where
  "formatAlert feature =
     (let props = properties feature
      in join newline
           [str ''Event: '' @ str_or (event props) (str ''Unknown''),
            str ''Area: '' @ str_or (areaDesc props) (str ''Unknown''),
            str ''Severity: '' @ str_or (severity props) (str ''Unknown''),
            str ''Status: '' @ str_or (alert_status props) (str ''Unknown''),
            str ''Headline: '' @ str_or (headline props) (str ''No headline''),
            str ''---''])"

definition formatForecastPeriod :: "ForecastPeriod \<Rightarrow> jsstring" where
  "formatForecastPeriod period =
     join newline
       [str_or (name period) (str ''Unknown'') @ str '':'',
        str ''Temperature: '' @ num_or (temperature period) (str ''Unknown'') @ degree_sign @
          str_or (temperatureUnit period) (str ''F''),
        str ''Wind: '' @ str_or (windSpeed period) (str ''Unknown'') @ str '' '' @
          str_or (windDirection period) [],
        str_or (shortForecast period) (str ''No forecast available''),
        str ''---'']"

text \<open>
  \<open>formatAlert\<close> and \<open>formatForecastPeriod\<close> above are the two functions on an object of
  the declared shape. On an element of a parsed array their property reads come first:
  \<open>feature.properties\<close> and then \<open>props.event\<close>, \<open>period.name\<close>; each throws on \<open>null\<close>
  or \<open>undefined\<close>.
\<close>

definition formatAlert_of :: "feature_value \<Rightarrow> thrown + jsstring" where
  "formatAlert_of feature =
     (case get_object feature ''properties'' of
        Inl t \<Rightarrow> Inl t
      | Inr props \<Rightarrow>
          (case get_object props ''event'' of
             Inl t \<Rightarrow> Inl t
           | Inr p \<Rightarrow> Inr (formatAlert \<lparr>properties = p\<rparr>)))"

definition formatForecastPeriod_of :: "ForecastPeriod js \<Rightarrow> thrown + jsstring" where
  "formatForecastPeriod_of period =
     (case get_object period ''name'' of
        Inl t \<Rightarrow> Inl t
      | Inr p \<Rightarrow> Inr (formatForecastPeriod p))"

text \<open>\<open>Array.prototype.map\<close> with a callback that may throw: the first throw ends it.\<close>

fun map_throwing :: "('a \<Rightarrow> thrown + 'b) \<Rightarrow> 'a list \<Rightarrow> thrown + 'b list" where
  "map_throwing f [] = Inr []"
| "map_throwing f (x # xs) =
     (case f x of
        Inl t \<Rightarrow> Inl t
      | Inr y \<Rightarrow> (case map_throwing f xs of Inl t \<Rightarrow> Inl t | Inr ys \<Rightarrow> Inr (y # ys)))"

definition formatAlerts :: "feature_value list \<Rightarrow> jsstring \<Rightarrow> thrown + jsstring" where
  "formatAlerts alerts stateCode =
     (if length alerts = 0 then Inr (str ''No active alerts for '' @ stateCode)
      else
        (case map_throwing formatAlert_of alerts of
           Inl t \<Rightarrow> Inl t
         | Inr formattedAlerts \<Rightarrow>
             Inr (str ''Active alerts for '' @ stateCode @ str '':'' @ newline @ newline @
                  join newline formattedAlerts)))"

definition formatForecast ::
  "ForecastPeriod js list \<Rightarrow> jsnum \<Rightarrow> jsnum \<Rightarrow> thrown + jsstring" where
  "formatForecast ps latitude longitude =
     (if length ps = 0 then Inr (str ''No forecast periods available'')
      else
        (case map_throwing formatForecastPeriod_of ps of
           Inl t \<Rightarrow> Inl t
         | Inr formattedPeriods \<Rightarrow>
             Inr (str ''Forecast for '' @ Number_toString latitude @ str '', '' @
                  Number_toString longitude @ str '':'' @ newline @ newline @
                  join newline formattedPeriods)))"

section \<open>Weather service\<close>

text \<open>The service owns one client, built from the configuration.\<close>

definition apiClient :: NWSAPIClient where
  "apiClient = \<lparr>baseUrl = NWS_API_BASE, userAgent = USER_AGENT\<rparr>"

text \<open>
  \<open>getAlerts\<close> and \<open>getForecast\<close> rethrow a \<open>WeatherServiceError\<close> unchanged and wrap every
  other error thrown inside their \<open>try\<close> block: the \<open>TypeError\<close> of a property read on
  \<open>null\<close> or \<open>undefined\<close>, in the service itself or in a formatter.
\<close>

definition alerts_retrieval_failed :: "thrown \<Rightarrow> WeatherServiceError" where
  "alerts_retrieval_failed err =
     new_error (str ''Failed to retrieve alerts: '' @ error_message err) ALERTS_RETRIEVAL_FAILED"

definition forecast_retrieval_failed :: "thrown \<Rightarrow> WeatherServiceError" where
  "forecast_retrieval_failed err =
     new_error (str ''Failed to retrieve forecast: '' @ error_message err)
       FORECAST_RETRIEVAL_FAILED"

definition WeatherService_getAlerts ::
  "(code_point \<Rightarrow> jsstring) \<Rightarrow> AlertsResponse js upstream \<Rightarrow> jsstring \<Rightarrow> world \<Rightarrow>
   (WeatherServiceError + jsstring) \<times> world" where
  "WeatherService_getAlerts uc fetch state w =
     (case validateStateCode uc state of
        Inl e \<Rightarrow> (Inl e, w)
      | Inr stateCode \<Rightarrow>
          (case NWSAPIClient_getAlerts apiClient fetch stateCode w of
             (Inl e, w') \<Rightarrow> (Inl e, w')
           | (Inr alertsData, w') \<Rightarrow>
               (case get_object alertsData ''features'' of
                  Inl err \<Rightarrow> (Inl (alerts_retrieval_failed err), w')
                | Inr a \<Rightarrow>
                    (let fs = (case features a of Some fs \<Rightarrow> fs | None \<Rightarrow> [])
                     in case formatAlerts fs stateCode of
                          Inl err \<Rightarrow> (Inl (alerts_retrieval_failed err), w')
                        | Inr text \<Rightarrow> (Inr text, w')))))"

text \<open>\<open>properties?.forecast\<close> on the object \<open>pointsData\<close>.\<close>

definition forecast_url_of :: "PointsResponse \<Rightarrow> jsstring option" where
  "forecast_url_of pointsData =
     (case points_properties pointsData of None \<Rightarrow> None | Some props \<Rightarrow> forecast props)"

definition forecast_url_missing :: WeatherServiceError where
  "forecast_url_missing =
     new_error (str ''Failed to get forecast URL from grid point data'') FORECAST_URL_MISSING"

definition WeatherService_getForecast ::
  "PointsResponse js upstream \<Rightarrow> ForecastResponse js upstream \<Rightarrow> jsnum \<Rightarrow> jsnum \<Rightarrow> world \<Rightarrow>
   (WeatherServiceError + jsstring) \<times> world" where
  "WeatherService_getForecast points_fetch forecast_fetch latitude longitude w =
     (case validateCoordinates latitude longitude of
        Inl e \<Rightarrow> (Inl e, w)
      | Inr _ \<Rightarrow>
          (case getGridPoint apiClient points_fetch latitude longitude w of
             (Inl e, w1) \<Rightarrow> (Inl e, w1)
           | (Inr pointsData, w1) \<Rightarrow>
               (case get_object pointsData ''properties'' of
                  Inl err \<Rightarrow> (Inl (forecast_retrieval_failed err), w1)
                | Inr pd \<Rightarrow>
                    (case forecast_url_of pd of
                       None \<Rightarrow> (Inl forecast_url_missing, w1)
                     | Some forecastUrl \<Rightarrow>
                         if \<not> truthy_str forecastUrl then (Inl forecast_url_missing, w1)
                         else
                           (case NWSAPIClient_getForecast apiClient forecast_fetch forecastUrl w1 of
                              (Inl e, w2) \<Rightarrow> (Inl e, w2)
                            | (Inr forecastData, w2) \<Rightarrow>
                                (case get_object forecastData ''properties'' of
                                   Inl err \<Rightarrow> (Inl (forecast_retrieval_failed err), w2)
                                 | Inr fd \<Rightarrow>
                                     (let ps = (case forecast_properties fd of
                                                  None \<Rightarrow> []
                                                | Some props \<Rightarrow>
                                                    (case periods props of
                                                       Some ps \<Rightarrow> ps
                                                     | None \<Rightarrow> []))
                                      in case formatForecast ps latitude longitude of
                                           Inl err \<Rightarrow> (Inl (forecast_retrieval_failed err), w2)
                                         | Inr text \<Rightarrow> (Inr text, w2))))))))"

section \<open>Sample runs\<close>

text \<open>Worlds, responses and upstream oracles on which the theorems below are instantiated.\<close>

definition empty_world :: world where
  "empty_world = \<lparr>requests = [], sleeps = [], warnings = []\<rparr>"

definition sample_points :: PointsResponse where
  "sample_points =
     \<lparr>points_properties =
        Some \<lparr>forecast = Some (str ''https://api.weather.gov/gridpoints/OKX/33,35/forecast'')\<rparr>\<rparr>"

definition points_without_url :: PointsResponse where
  "points_without_url = \<lparr>points_properties = Some \<lparr>forecast = None\<rparr>\<rparr>"

definition response_200 :: "PointsResponse response" where
  "response_200 = \<lparr>status = 200, statusText = str ''OK'', json = Inr sample_points\<rparr>"

definition response_200_without_url :: "PointsResponse js response" where
  "response_200_without_url =
     \<lparr>status = 200, statusText = str ''OK'', json = Inr (Obj points_without_url)\<rparr>"

definition response_200_null :: "PointsResponse js response" where
  "response_200_null = \<lparr>status = 200, statusText = str ''OK'', json = Inr Null\<rparr>"

definition response_garbled :: "PointsResponse response" where
  "response_garbled =
     \<lparr>status = 200, statusText = str ''OK'', json = Inl (Error (str ''Unexpected token''))\<rparr>"

definition response_404 :: "PointsResponse response" where
  "response_404 =
     \<lparr>status = 404, statusText = str ''Not Found'', json = Inl (Error (str ''Unexpected token''))\<rparr>"

definition response_503 :: "PointsResponse response" where
  "response_503 =
     \<lparr>status = 503, statusText = str ''Service Unavailable'',
      json = Inl (Error (str ''Unexpected token''))\<rparr>"

definition upstream_404 :: "PointsResponse upstream" where
  "upstream_404 i req = Resolves response_404"

definition upstream_503 :: "PointsResponse upstream" where
  "upstream_503 i req = Resolves response_503"

definition upstream_503_503_200 :: "PointsResponse upstream" where
  "upstream_503_503_200 i req = (if i < 2 then Resolves response_503 else Resolves response_200)"

definition upstream_garbled_then_404 :: "PointsResponse upstream" where
  "upstream_garbled_then_404 i req =
     (if i = 0 then Resolves response_garbled else Resolves response_404)"

definition upstream_garbled :: "PointsResponse upstream" where
  "upstream_garbled i req = Resolves response_garbled"

definition upstream_without_url :: "PointsResponse js upstream" where
  "upstream_without_url i req = Resolves response_200_without_url"

definition upstream_null_body :: "PointsResponse js upstream" where
  "upstream_null_body i req = Resolves response_200_null"

definition upstream_no_forecast :: "ForecastResponse js upstream" where
  "upstream_no_forecast i req = Rejects (Error (str ''fetch failed''))"

definition alerts_without_properties :: "AlertsResponse js" where
  "alerts_without_properties = Obj \<lparr>features = Some [Obj Undefined]\<rparr>"

definition upstream_alerts_without_properties :: "AlertsResponse js upstream" where
  "upstream_alerts_without_properties i req =
     Resolves \<lparr>status = 200, statusText = str ''OK'', json = Inr alerts_without_properties\<rparr>"

definition sample_request :: request where
  "sample_request = \<lparr>url = str ''https://api.weather.gov/points/40.7128,-74.0060'',
                      headers = request_headers apiClient\<rparr>"

section \<open>Reading a formatted coordinate\<close>

definition is_digit :: "code_point \<Rightarrow> bool" where
  "is_digit c = (48 \<le> c \<and> c \<le> 57)"

text \<open>The number a string of digits denotes.\<close>

definition read_digits :: "jsstring \<Rightarrow> nat" where
  "read_digits s = foldl (\<lambda>acc c. 10 * acc + (c - 48)) 0 s"

text \<open>An optional minus sign, one digit or more, a point, four digits.\<close>

definition four_decimals :: "jsstring \<Rightarrow> bool" where
  "four_decimals s =
     (let t = (if s \<noteq> [] \<and> hd s = 45 then tl s else s)
      in 6 \<le> length t \<and>
         list_all is_digit (take (length t - 5) t) \<and>
         t ! (length t - 5) = 46 \<and>
         list_all is_digit (drop (length t - 4) t))"

text \<open>
  The rendering the specification describes: the sign, then the magnitude rounded to the
  nearest multiple of \<open>1 / 10 ^ 4\<close> (the larger of two equally near), written as its integer
  part, a point and four digits.
\<close>

definition rounded_4 :: "rat \<Rightarrow> nat" where
  "rounded_4 a = nat \<lfloor>\<bar>a\<bar> * 10 ^ 4 + 1 / 2\<rfloor>"

definition four_decimal_rendering :: "rat \<Rightarrow> jsstring" where
  "four_decimal_rendering a =
     (if a < 0 then str ''-'' else []) @
     decimal (rounded_4 a div 10000) @ str ''.'' @
     [digit_char (rounded_4 a div 1000 mod 10), digit_char (rounded_4 a div 100 mod 10),
      digit_char (rounded_4 a div 10 mod 10), digit_char (rounded_4 a mod 10)]"

section \<open>The retry loop\<close>

lemma decimal_404: "decimal 404 = str ''404''"
  by (simp add: decimal.simps digit_char_def str_def)

lemma attempt_loop_non_retryable:
  assumes "attempt \<le> retries"
    and "fetch (length (requests w)) req = Resolves r"
    and "\<not> ok r" and "status r < 500" and "status r \<noteq> 429"
  shows "attempt_loop fetch req retries attempt w =
     (Inl \<lparr>message = str ''HTTP '' @ decimal (status r) @ str '': '' @ statusText r,
           code = API_REQUEST_FAILED, statusCode = Some (status r), retryable = False\<rparr>,
      w\<lparr>requests := requests w @ [req]\<rparr>)"
  using assms by (subst attempt_loop.simps) (simp add: attempt_body_def Let_def)

text \<open>
  Claim C2. When the upstream answers the first attempt of \<open>makeRequest\<close> with HTTP 404, the
  call fails with \<open>API_REQUEST_FAILED\<close>, status 404 and \<open>retryable = false\<close>; the world
  afterwards holds that one request more and no new delay or warning, so no backoff was
  slept and no further attempt made. This holds for every maximum of at least one attempt.
\<close>

theorem makeRequest_404:
  assumes "1 \<le> retries"
    and "fetch (length (requests w)) \<lparr>url = u, headers = request_headers client\<rparr> = Resolves r"
    and "status r = 404"
  shows "makeRequest client fetch u retries w =
     (Inl \<lparr>message = str ''HTTP 404: '' @ statusText r,
           code = API_REQUEST_FAILED, statusCode = Some 404, retryable = False\<rparr>,
      w\<lparr>requests := requests w @ [\<lparr>url = u, headers = request_headers client\<rparr>]\<rparr>)"
proof -
  have "\<not> ok r" using assms(3) by (simp add: ok_def)
  then show ?thesis
    unfolding makeRequest_def
    using attempt_loop_non_retryable [where fetch = fetch and w = w and r = r
        and req = "\<lparr>url = u, headers = request_headers client\<rparr>"
        and attempt = 1 and retries = retries] assms
    by (simp add: decimal_404 str_def)
qed

theorem makeRequest_404_witness:
  "(1::nat) \<le> MAX_RETRIES \<and>
   upstream_404 (length (requests empty_world)) \<lparr>url = str ''u'', headers = request_headers apiClient\<rparr>
     = Resolves response_404 \<and>
   status response_404 = 404 \<and>
   makeRequest apiClient upstream_404 (str ''u'') MAX_RETRIES empty_world =
     (Inl \<lparr>message = str ''HTTP 404: '' @ statusText response_404,
           code = API_REQUEST_FAILED, statusCode = Some 404, retryable = False\<rparr>,
      empty_world\<lparr>requests := requests empty_world @
         [\<lparr>url = str ''u'', headers = request_headers apiClient\<rparr>]\<rparr>)"
proof -
  have h1: "(1::nat) \<le> MAX_RETRIES" by (simp add: MAX_RETRIES_def)
  have h2: "upstream_404 (length (requests empty_world))
      \<lparr>url = str ''u'', headers = request_headers apiClient\<rparr> = Resolves response_404"
    by (simp add: upstream_404_def)
  have h3: "status response_404 = 404" by (simp add: response_404_def)
  show ?thesis
    using h1 h2 h3 makeRequest_404 [where retries = MAX_RETRIES and fetch = upstream_404
        and w = empty_world and u = "str ''u''" and client = apiClient and r = response_404]
    by simp
qed

lemma attempt_body_Continue:
  "attempt_body fetch req retries attempt w = (Continue, w') \<Longrightarrow> attempt \<noteq> retries"
  by (auto simp: attempt_body_def catch_clause_def Let_def
      split: fetch_result.splits if_splits sum.splits)

lemma attempt_body_Throw:
  "attempt_body fetch req retries attempt w = (Throw e, w') \<Longrightarrow>
   code e = NETWORK_ERROR \<or> code e = API_REQUEST_FAILED"
  by (auto simp: attempt_body_def catch_clause_def Let_def
      split: fetch_result.splits if_splits sum.splits)

lemma attempt_loop_outcome:
  "attempt \<le> retries \<Longrightarrow>
   (\<exists>v. fst (attempt_loop fetch req retries attempt w) = Inr v) \<or>
   (\<exists>e. fst (attempt_loop fetch req retries attempt w) = Inl e \<and>
        (code e = NETWORK_ERROR \<or> code e = API_REQUEST_FAILED))"
proof (induction fetch req retries attempt w rule: attempt_loop.induct)
  case (1 fetch req retries attempt w)
  obtain st w' where b: "attempt_body fetch req retries attempt w = (st, w')"
    by (cases "attempt_body fetch req retries attempt w")
  show ?case
  proof (cases st)
    case (Return v)
    with b "1.prems" show ?thesis by (subst attempt_loop.simps) simp
  next
    case (Throw e)
    with b "1.prems" attempt_body_Throw [of fetch req retries attempt w e w'] show ?thesis
      by (subst attempt_loop.simps, subst attempt_loop.simps) simp
  next
    case Continue
    with b have "attempt \<noteq> retries" using attempt_body_Continue by blast
    with "1.prems" have lt: "attempt + 1 \<le> retries" by simp
    have ih: "(\<exists>v. fst (attempt_loop fetch req retries (attempt + 1) w') = Inr v) \<or>
      (\<exists>e. fst (attempt_loop fetch req retries (attempt + 1) w') = Inl e \<and>
        (code e = NETWORK_ERROR \<or> code e = API_REQUEST_FAILED))"
      using "1.IH" [OF "1.prems" b [symmetric] Continue lt] .
    have "attempt_loop fetch req retries attempt w = attempt_loop fetch req retries (attempt + 1) w'"
      using b Continue "1.prems" by (subst attempt_loop.simps) simp
    with ih show ?thesis by simp
  qed
qed


lemma attempt_loop_retryable:
  assumes "attempt < retries"
    and "fetch (length (requests w)) req = Resolves r"
    and "\<not> ok r" and "500 \<le> status r \<or> status r = 429"
  shows "attempt_loop fetch req retries attempt w =
     attempt_loop fetch req retries (attempt + 1)
       (retry_wait attempt (w\<lparr>requests := requests w @ [req]\<rparr>))"
  using assms by (subst attempt_loop.simps) (auto simp: attempt_body_def Let_def)

lemma attempt_loop_parsed:
  assumes "attempt \<le> retries"
    and "fetch (length (requests w)) req = Resolves r"
    and "ok r" and "json r = Inr v"
  shows "attempt_loop fetch req retries attempt w = (Inr v, w\<lparr>requests := requests w @ [req]\<rparr>)"
  using assms by (subst attempt_loop.simps) (simp add: attempt_body_def Let_def)

lemma attempt_loop_unparsed:
  assumes "attempt \<le> retries"
    and "fetch (length (requests w)) req = Resolves r"
    and "ok r" and "json r = Inl err"
  shows "attempt_loop fetch req retries attempt w =
     (if attempt = retries then
        (Inl \<lparr>message = str ''Network error: '' @ error_message err, code = NETWORK_ERROR,
              statusCode = None, retryable = True\<rparr>,
         w\<lparr>requests := requests w @ [req]\<rparr>)
      else attempt_loop fetch req retries (attempt + 1)
             (retry_wait attempt (w\<lparr>requests := requests w @ [req]\<rparr>)))"
  using assms
  by (subst attempt_loop.simps) (simp add: attempt_body_def catch_clause_def Let_def)

lemma decimal_small:
  "decimal (Suc 0) = str ''1''" "decimal (Suc (Suc 0)) = str ''2''"
  "decimal 1000 = str ''1000''"
  by (simp_all add: decimal.simps digit_char_def str_def)

text \<open>
  Claim C1. Against an upstream that answers the first two attempts with HTTP 503 and the
  third with a 2xx response whose body parses, \<open>makeRequest\<close> returns the parsed payload;
  the world afterwards holds exactly three requests more and exactly two delays more, each
  of 1000 ms (and the two warnings). This holds for every maximum of at least three
  attempts, the configured maximum among them.
\<close>

theorem makeRequest_503_503_200:
  assumes "3 \<le> retries"
    and "req = \<lparr>url = u, headers = request_headers client\<rparr>"
    and "fetch (length (requests w)) req = Resolves ra" and "status ra = 503"
    and "fetch (length (requests w) + 1) req = Resolves rb" and "status rb = 503"
    and "fetch (length (requests w) + 2) req = Resolves rc" and "ok rc" and "json rc = Inr v"
  shows "makeRequest client fetch u retries w =
     (Inr v,
      w\<lparr>requests := requests w @ [req, req, req],
        sleeps := sleeps w @ [1000, 1000],
        warnings := warnings w @
          [str ''Attempt 1 failed, retrying in 1000ms...'',
           str ''Attempt 2 failed, retrying in 1000ms...'']\<rparr>)"
proof -
  let ?w1 = "retry_wait 1 (w\<lparr>requests := requests w @ [req]\<rparr>)"
  let ?w2 = "retry_wait (1 + 1) (?w1\<lparr>requests := requests ?w1 @ [req]\<rparr>)"
  have n1: "\<not> ok ra" and n2: "\<not> ok rb" using assms(4,6) by (simp_all add: ok_def)
  have l1: "length (requests ?w1) = length (requests w) + 1"
    by (simp add: retry_wait_def)
  have l2: "length (requests ?w2) = length (requests w) + 2"
    by (simp add: retry_wait_def)
  have s1: "attempt_loop fetch req retries 1 w = attempt_loop fetch req retries (1 + 1) ?w1"
    by (rule attempt_loop_retryable [where r = ra]) (use assms(1,3,4) n1 in auto)
  have s2: "attempt_loop fetch req retries (1 + 1) ?w1 =
      attempt_loop fetch req retries (1 + 1 + 1) ?w2"
    by (rule attempt_loop_retryable [where r = rb]) (use assms(1,5,6) n2 l1 in auto)
  have s3: "attempt_loop fetch req retries (1 + 1 + 1) ?w2 =
      (Inr v, ?w2\<lparr>requests := requests ?w2 @ [req]\<rparr>)"
    by (rule attempt_loop_parsed [where r = rc]) (use assms(1,7,8,9) l2 in auto)
  have fin: "?w2\<lparr>requests := requests ?w2 @ [req]\<rparr> =
      w\<lparr>requests := requests w @ [req, req, req],
        sleeps := sleeps w @ [1000, 1000],
        warnings := warnings w @
          [str ''Attempt 1 failed, retrying in 1000ms...'',
           str ''Attempt 2 failed, retrying in 1000ms...'']\<rparr>"
    by (simp add: retry_wait_def RETRY_DELAY_def decimal_small str_def)
  have "attempt_loop fetch req retries 1 w = (Inr v, ?w2\<lparr>requests := requests ?w2 @ [req]\<rparr>)"
    using s1 s2 s3 by (rule trans [OF trans])
  then show ?thesis
    unfolding makeRequest_def assms(2) [symmetric] using fin by (rule trans [OF _ arg_cong])
qed

theorem makeRequest_503_503_200_witness:
  "(3::nat) \<le> MAX_RETRIES \<and>
   sample_request = \<lparr>url = url sample_request, headers = request_headers apiClient\<rparr> \<and>
   upstream_503_503_200 (length (requests empty_world)) sample_request = Resolves response_503 \<and>
   status response_503 = 503 \<and>
   upstream_503_503_200 (length (requests empty_world) + 1) sample_request = Resolves response_503 \<and>
   upstream_503_503_200 (length (requests empty_world) + 2) sample_request = Resolves response_200 \<and>
   ok response_200 \<and> json response_200 = Inr sample_points \<and>
   makeRequest apiClient upstream_503_503_200 (url sample_request) MAX_RETRIES empty_world =
     (Inr sample_points,
      \<lparr>requests = [sample_request, sample_request, sample_request],
       sleeps = [1000, 1000],
       warnings = [str ''Attempt 1 failed, retrying in 1000ms...'',
                   str ''Attempt 2 failed, retrying in 1000ms...'']\<rparr>)"
proof -
  have h1: "(3::nat) \<le> MAX_RETRIES" by (simp add: MAX_RETRIES_def)
  have h2: "sample_request = \<lparr>url = url sample_request, headers = request_headers apiClient\<rparr>"
    by (simp add: sample_request_def)
  have h3: "upstream_503_503_200 (length (requests empty_world)) sample_request = Resolves response_503"
    by (simp add: upstream_503_503_200_def empty_world_def)
  have h4: "status response_503 = 503" by (simp add: response_503_def)
  have h5: "upstream_503_503_200 (length (requests empty_world) + 1) sample_request = Resolves response_503"
    by (simp add: upstream_503_503_200_def empty_world_def)
  have h6: "upstream_503_503_200 (length (requests empty_world) + 2) sample_request = Resolves response_200"
    by (simp add: upstream_503_503_200_def empty_world_def)
  have h7: "ok response_200" by (simp add: ok_def response_200_def)
  have h8: "json response_200 = Inr sample_points" by (simp add: response_200_def)
  have "makeRequest apiClient upstream_503_503_200 (url sample_request) MAX_RETRIES empty_world =
     (Inr sample_points,
      empty_world\<lparr>requests := requests empty_world @ [sample_request, sample_request, sample_request],
        sleeps := sleeps empty_world @ [1000, 1000],
        warnings := warnings empty_world @
          [str ''Attempt 1 failed, retrying in 1000ms...'',
           str ''Attempt 2 failed, retrying in 1000ms...'']\<rparr>)"
    using h1 h2 h3 h4 h5 h6 h7 h8
      makeRequest_503_503_200 [where ra = response_503 and rb = response_503
        and rc = response_200 and retries = MAX_RETRIES and req = sample_request
        and u = "url sample_request" and client = apiClient and fetch = upstream_503_503_200
        and w = empty_world and v = sample_points]
    by blast
  then show ?thesis using h1 h2 h3 h4 h5 h6 h7 h8 by (simp add: empty_world_def)
qed

text \<open>
  Claim C3, as amended. When an attempt receives a 2xx response, a body that parses is
  returned as the payload. A body that does not parse is handled as a transport failure is:
  on the final attempt the call fails with \<open>NETWORK_ERROR\<close>, \<open>retryable = true\<close>; on an
  earlier attempt the loop waits the retry delay and goes on with the next attempt, whose
  outcome decides the call.
\<close>

theorem makeRequest_2xx:
  assumes "attempt \<le> retries"
    and "fetch (length (requests w)) req = Resolves r" and "ok r"
  shows "attempt_loop fetch req retries attempt w =
     (case json r of
        Inr v \<Rightarrow> (Inr v, w\<lparr>requests := requests w @ [req]\<rparr>)
      | Inl err \<Rightarrow>
          if attempt = retries then
            (Inl \<lparr>message = str ''Network error: '' @ error_message err, code = NETWORK_ERROR,
                  statusCode = None, retryable = True\<rparr>,
             w\<lparr>requests := requests w @ [req]\<rparr>)
          else attempt_loop fetch req retries (attempt + 1)
                 (retry_wait attempt (w\<lparr>requests := requests w @ [req]\<rparr>)))"
proof (cases "json r")
  case (Inl err)
  then show ?thesis using attempt_loop_unparsed [OF assms(1) _ assms(3) Inl, of fetch w req] assms(2) by simp
next
  case (Inr v)
  then show ?thesis using attempt_loop_parsed [OF assms(1) _ assms(3) Inr, of fetch w req] assms(2) by simp
qed

theorem makeRequest_2xx_witness:
  "MAX_RETRIES \<le> MAX_RETRIES \<and>
   upstream_garbled (length (requests empty_world)) sample_request = Resolves response_garbled \<and>
   ok response_garbled \<and>
   attempt_loop upstream_garbled sample_request MAX_RETRIES MAX_RETRIES empty_world =
     (Inl \<lparr>message = str ''Network error: Unexpected token'', code = NETWORK_ERROR,
           statusCode = None, retryable = True\<rparr>,
      \<lparr>requests = [sample_request], sleeps = [], warnings = []\<rparr>)"
proof -
  have h1: "MAX_RETRIES \<le> MAX_RETRIES" by simp
  have h2: "upstream_garbled (length (requests empty_world)) sample_request = Resolves response_garbled"
    by (simp add: upstream_garbled_def)
  have h3: "ok response_garbled" by (simp add: ok_def response_garbled_def)
  show ?thesis
    using h2 h3 makeRequest_2xx [where attempt = MAX_RETRIES and retries = MAX_RETRIES
        and fetch = upstream_garbled and w = empty_world and req = sample_request
        and r = response_garbled]
    by (simp add: response_garbled_def empty_world_def str_def)
qed

text \<open>
  The claim as stated fails: a 2xx response with an unparseable body on the first attempt,
  followed by HTTP 404 on the second, ends in \<open>API_REQUEST_FAILED\<close>, not in
  \<open>NETWORK_ERROR\<close>.
\<close>

theorem parse_failure_not_surfaced:
  "upstream_garbled_then_404 0 sample_request = Resolves response_garbled \<and>
   ok response_garbled \<and> json response_garbled = Inl (Error (str ''Unexpected token'')) \<and>
   makeRequest apiClient upstream_garbled_then_404 (url sample_request) MAX_RETRIES empty_world =
     (Inl \<lparr>message = str ''HTTP 404: Not Found'', code = API_REQUEST_FAILED,
           statusCode = Some 404, retryable = False\<rparr>,
      \<lparr>requests = [sample_request, sample_request], sleeps = [1000],
       warnings = [str ''Attempt 1 failed, retrying in 1000ms...'']\<rparr>)"
proof -
  let ?w1 = "retry_wait 1 (empty_world\<lparr>requests := requests empty_world @ [sample_request]\<rparr>)"
  have h1: "upstream_garbled_then_404 0 sample_request = Resolves response_garbled"
    by (simp add: upstream_garbled_then_404_def)
  have h2: "ok response_garbled" by (simp add: ok_def response_garbled_def)
  have h3: "json response_garbled = Inl (Error (str ''Unexpected token''))"
    by (simp add: response_garbled_def)
  have s1: "attempt_loop upstream_garbled_then_404 sample_request MAX_RETRIES 1 empty_world =
      attempt_loop upstream_garbled_then_404 sample_request MAX_RETRIES (1 + 1) ?w1"
    using attempt_loop_unparsed [where attempt = 1 and retries = MAX_RETRIES
        and fetch = upstream_garbled_then_404 and w = empty_world and req = sample_request
        and r = response_garbled and err = "Error (str ''Unexpected token'')"] h1 h2 h3
    by (simp add: MAX_RETRIES_def empty_world_def)
  have s2: "attempt_loop upstream_garbled_then_404 sample_request MAX_RETRIES (1 + 1) ?w1 =
      (Inl \<lparr>message = str ''HTTP '' @ decimal (status response_404) @ str '': '' @
               statusText response_404,
            code = API_REQUEST_FAILED, statusCode = Some (status response_404),
            retryable = False\<rparr>,
       ?w1\<lparr>requests := requests ?w1 @ [sample_request]\<rparr>)"
    by (rule attempt_loop_non_retryable)
       (simp_all add: MAX_RETRIES_def upstream_garbled_then_404_def retry_wait_def
          empty_world_def response_404_def ok_def)
  have "makeRequest apiClient upstream_garbled_then_404 (url sample_request) MAX_RETRIES empty_world
      = attempt_loop upstream_garbled_then_404 sample_request MAX_RETRIES 1 empty_world"
    by (simp add: makeRequest_def sample_request_def)
  with s1 s2 h1 h2 h3 show ?thesis
    by (simp add: response_404_def decimal_404 retry_wait_def empty_world_def RETRY_DELAY_def
        decimal_small str_def)
qed

text \<open>
  Claim C4. When the maximum number of attempts is at least 1, \<open>makeRequest\<close> either
  returns a payload or fails with an error thrown inside the loop, of kind \<open>NETWORK_ERROR\<close>
  or \<open>API_REQUEST_FAILED\<close>; it never fails with \<open>MAX_RETRIES_EXCEEDED\<close>.
\<close>

theorem makeRequest_never_falls_through:
  assumes "1 \<le> retries"
  shows "(\<exists>v. fst (makeRequest client fetch u retries w) = Inr v) \<or>
     (\<exists>e. fst (makeRequest client fetch u retries w) = Inl e \<and>
          code e \<noteq> MAX_RETRIES_EXCEEDED \<and>
          (code e = NETWORK_ERROR \<or> code e = API_REQUEST_FAILED))"
  using attempt_loop_outcome [where attempt = 1 and retries = retries and fetch = fetch
      and req = "\<lparr>url = u, headers = request_headers client\<rparr>" and w = w] assms
  unfolding makeRequest_def by auto

theorem makeRequest_never_falls_through_witness:
  "(1::nat) \<le> MAX_RETRIES \<and>
   ((\<exists>v. fst (makeRequest apiClient upstream_503 (url sample_request) MAX_RETRIES empty_world) = Inr v) \<or>
    (\<exists>e. fst (makeRequest apiClient upstream_503 (url sample_request) MAX_RETRIES empty_world) = Inl e \<and>
         code e \<noteq> MAX_RETRIES_EXCEEDED \<and>
         (code e = NETWORK_ERROR \<or> code e = API_REQUEST_FAILED)))"
proof -
  have h: "(1::nat) \<le> MAX_RETRIES" by (simp add: MAX_RETRIES_def)
  show ?thesis
    using h makeRequest_never_falls_through [where retries = MAX_RETRIES and client = apiClient
        and fetch = upstream_503 and u = "url sample_request" and w = empty_world]
    by simp
qed

section \<open>The requests a call sends\<close>

lemma attempt_body_requests:
  "requests (snd (attempt_body fetch req retries attempt w)) = requests w @ [req]"
  by (simp add: attempt_body_def catch_clause_def retry_wait_def Let_def
      split: fetch_result.splits sum.splits)

lemma attempt_loop_requests_extend:
  "\<exists>rest. requests (snd (attempt_loop fetch req retries attempt w)) = requests w @ rest"
proof (induction fetch req retries attempt w rule: attempt_loop.induct)
  case (1 fetch req retries attempt w)
  obtain st w' where b: "attempt_body fetch req retries attempt w = (st, w')"
    by (cases "attempt_body fetch req retries attempt w")
  then have r: "requests w' = requests w @ [req]"
    using attempt_body_requests [of fetch req retries attempt w] by simp
  show ?case
  proof (cases "attempt \<le> retries")
    case False
    then show ?thesis by (subst attempt_loop.simps) simp
  next
    case True
    show ?thesis
    proof (cases st)
      case (Return v)
      with b True r show ?thesis by (subst attempt_loop.simps) simp
    next
      case (Throw e)
      with b True r show ?thesis by (subst attempt_loop.simps) simp
    next
      case Continue
      obtain rest where "requests (snd (attempt_loop fetch req retries (attempt + 1) w')) = requests w' @ rest"
        using "1.IH" [OF True b [symmetric] Continue] by blast
      moreover have "attempt_loop fetch req retries attempt w = attempt_loop fetch req retries (attempt + 1) w'"
        using b Continue True by (subst attempt_loop.simps) simp
      ultimately show ?thesis using r by simp
    qed
  qed
qed

lemma attempt_loop_first_request:
  assumes "attempt \<le> retries"
  shows "\<exists>rest. requests (snd (attempt_loop fetch req retries attempt w)) = requests w @ req # rest"
proof -
  obtain st w' where b: "attempt_body fetch req retries attempt w = (st, w')"
    by (cases "attempt_body fetch req retries attempt w")
  then have r: "requests w' = requests w @ [req]"
    using attempt_body_requests [of fetch req retries attempt w] by simp
  show ?thesis
  proof (cases st)
    case (Return v)
    with b assms r show ?thesis by (subst attempt_loop.simps) simp
  next
    case (Throw e)
    with b assms r show ?thesis by (subst attempt_loop.simps) simp
  next
    case Continue
    obtain rest where "requests (snd (attempt_loop fetch req retries (attempt + 1) w')) = requests w' @ rest"
      using attempt_loop_requests_extend by blast
    moreover have "attempt_loop fetch req retries attempt w = attempt_loop fetch req retries (attempt + 1) w'"
      using b Continue assms by (subst attempt_loop.simps) simp
    ultimately show ?thesis using r by simp
  qed
qed

lemma makeRequest_first_request:
  "\<exists>rest. requests (snd (makeRequest client fetch u MAX_RETRIES w)) =
     requests w @ \<lparr>url = u, headers = request_headers client\<rparr> # rest"
  unfolding makeRequest_def by (rule attempt_loop_first_request) (simp add: MAX_RETRIES_def)

lemma makeRequest_requests_extend:
  "\<exists>rest. requests (snd (makeRequest client fetch u retries w)) = requests w @ rest"
  unfolding makeRequest_def by (rule attempt_loop_requests_extend)

section \<open>Validation\<close>

lemma toUpperCase_ca: "toUpperCase uc (str ''ca'') = str ''CA''" "toUpperCase uc (str ''CA'') = str ''CA''"
  by (simp_all add: toUpperCase_def upper_code_point_def str_def)

lemma validateStateCode_ca:
  "validateStateCode uc (str ''ca'') = Inr (str ''CA'')"
  "validateStateCode uc (str ''CA'') = Inr (str ''CA'')"
  by (simp_all add: validateStateCode_def toUpperCase_ca Let_def) (simp_all add: two_capitals_def str_def)

lemma upper_ascii_letter:
  "(65 \<le> a \<and> a \<le> 90) \<or> (97 \<le> a \<and> a \<le> 122) \<Longrightarrow>
   upper_code_point uc a = [if 97 \<le> a then a - 32 else a]"
proof -
  assume h: "(65 \<le> a \<and> a \<le> 90) \<or> (97 \<le> a \<and> a \<le> 122)"
  then have "a < 128" by arith
  with h show ?thesis by (auto simp: upper_code_point_def)
qed

lemma upper_ascii_letter_capital:
  "(65 \<le> a \<and> a \<le> 90) \<or> (97 \<le> a \<and> a \<le> 122) \<Longrightarrow>
   65 \<le> (if 97 \<le> a then a - 32 else a) \<and> (if 97 \<le> a then a - 32 else a) \<le> (90::nat)"
  by arith

text \<open>Two ASCII letters in any case are accepted, and returned in upper case.\<close>

lemma validateStateCode_two_ascii_letters:
  assumes "(65 \<le> a \<and> a \<le> 90) \<or> (97 \<le> a \<and> a \<le> 122)"
    and "(65 \<le> b \<and> b \<le> 90) \<or> (97 \<le> b \<and> b \<le> 122)"
  shows "validateStateCode uc [a, b] =
     Inr [if 97 \<le> a then a - 32 else a, if 97 \<le> b then b - 32 else b]"
proof -
  have u: "toUpperCase uc [a, b] = [if 97 \<le> a then a - 32 else a, if 97 \<le> b then b - 32 else b]"
    by (simp only: toUpperCase_def list.map concat.simps upper_ascii_letter [OF assms(1)]
        upper_ascii_letter [OF assms(2)] append.simps)
  have c: "two_capitals [if 97 \<le> a then a - 32 else a, if 97 \<le> b then b - 32 else b]"
    using upper_ascii_letter_capital [OF assms(1)] upper_ascii_letter_capital [OF assms(2)]
    by (simp add: two_capitals_def)
  show ?thesis
    by (simp only: validateStateCode_def u Let_def c) simp
qed


lemma toFixed_NaN: "toFixed f NaN = str ''NaN''"
  by (simp add: toFixed_def)

lemma formatCoordinates_NaN: "formatCoordinates NaN NaN = str ''NaN,NaN''"
  by (simp add: formatCoordinates_def toFixed_NaN str_def)

lemma validateCoordinates_NaN_lat:
  "validateCoordinates NaN longitude =
     (if num_less longitude (Finite (- 180)) \<or> num_greater longitude (Finite 180) then
        Inl (new_error
               (str ''Invalid longitude: '' @ Number_toString longitude @
                str ''. Must be between -180 and 180'')
               INVALID_LONGITUDE)
      else Inr ())"
  by (simp add: validateCoordinates_def num_greater_def)

lemma validateCoordinates_NaN_lon:
  "validateCoordinates latitude NaN =
     (if num_less latitude (Finite (- 90)) \<or> num_greater latitude (Finite 90) then
        Inl (new_error
               (str ''Invalid latitude: '' @ Number_toString latitude @
                str ''. Must be between -90 and 90'')
               INVALID_LATITUDE)
      else Inr ())"
  by (cases latitude) (simp_all add: validateCoordinates_def num_greater_def)

section \<open>The service\<close>

text \<open>A feature without \<open>properties\<close> makes \<open>formatAlert\<close> throw, and \<open>getAlerts\<close> wraps
  the error.\<close>

lemma getAlerts_feature_without_properties:
  "WeatherService_getAlerts uc upstream_alerts_without_properties (str ''CA'') empty_world =
     (Inl \<lparr>message = str ''Failed to retrieve alerts: Cannot read properties of undefined (reading '' @
                     [39] @ str ''event'' @ [39] @ str '')'',
           code = ALERTS_RETRIEVAL_FAILED, statusCode = None, retryable = False\<rparr>,
      empty_world\<lparr>requests := requests empty_world @
        [\<lparr>url = baseUrl apiClient @ str ''/alerts?area='' @ str ''CA'',
          headers = request_headers apiClient\<rparr>]\<rparr>)"
proof -
  let ?req = "\<lparr>url = baseUrl apiClient @ str ''/alerts?area='' @ str ''CA'',
               headers = request_headers apiClient\<rparr>"
  have "attempt_loop upstream_alerts_without_properties ?req MAX_RETRIES 1 empty_world =
      (Inr alerts_without_properties, empty_world\<lparr>requests := requests empty_world @ [?req]\<rparr>)"
    by (rule attempt_loop_parsed
          [where r = "\<lparr>status = 200, statusText = str ''OK'', json = Inr alerts_without_properties\<rparr>"])
       (simp_all add: MAX_RETRIES_def upstream_alerts_without_properties_def ok_def)
  then have c: "NWSAPIClient_getAlerts apiClient upstream_alerts_without_properties (str ''CA'') empty_world =
      (Inr alerts_without_properties, empty_world\<lparr>requests := requests empty_world @ [?req]\<rparr>)"
    by (simp add: NWSAPIClient_getAlerts_def makeRequest_def)
  have f: "formatAlerts [Obj Undefined] (str ''CA'') = Inl (cannot_read ''undefined'' ''event'')"
    by (simp add: formatAlerts_def formatAlert_of_def)
  show ?thesis
    by (simp add: WeatherService_getAlerts_def validateStateCode_ca c alerts_without_properties_def
        f alerts_retrieval_failed_def new_error_def cannot_read_def) (simp add: str_def)
qed

text \<open>
  Claim C8. A run of \<open>getAlerts\<close> on \<open>ca\<close> and a run on \<open>CA\<close>, from the same world and
  against the same upstream oracle, have the same result and leave the same world: the same
  requests (URL and headers) in the same order, and the same output text or error.
\<close>

theorem getAlerts_ca_CA:
  "WeatherService_getAlerts uc fetch (str ''ca'') w = WeatherService_getAlerts uc fetch (str ''CA'') w"
  by (simp add: WeatherService_getAlerts_def validateStateCode_ca)

lemma getGridPoint_parsed:
  assumes "points_fetch (length (requests w))
       \<lparr>url = baseUrl apiClient @ str ''/points/'' @ formatCoordinates latitude longitude,
        headers = request_headers apiClient\<rparr> = Resolves r"
    and "ok r" and "json r = Inr body"
  shows "getGridPoint apiClient points_fetch latitude longitude w =
     (Inr body,
      w\<lparr>requests := requests w @
         [\<lparr>url = baseUrl apiClient @ str ''/points/'' @ formatCoordinates latitude longitude,
           headers = request_headers apiClient\<rparr>]\<rparr>)"
proof -
  have "(1::nat) \<le> MAX_RETRIES" by (simp add: MAX_RETRIES_def)
  then show ?thesis
    unfolding getGridPoint_def makeRequest_def Let_def
    using attempt_loop_parsed [where attempt = 1 and retries = MAX_RETRIES and r = r
        and fetch = points_fetch and w = w and v = body
        and req = "\<lparr>url = baseUrl apiClient @ str ''/points/'' @ formatCoordinates latitude longitude,
                    headers = request_headers apiClient\<rparr>"] assms
    by simp
qed

lemma getForecast_on_object:
  assumes "validateCoordinates latitude longitude = Inr ()"
    and "getGridPoint apiClient points_fetch latitude longitude w = (Inr (Obj pointsData), w')"
    and "forecast_url_of pointsData = None \<or> forecast_url_of pointsData = Some []"
  shows "WeatherService_getForecast points_fetch forecast_fetch latitude longitude w =
     (Inl \<lparr>message = str ''Failed to get forecast URL from grid point data'',
           code = FORECAST_URL_MISSING, statusCode = None, retryable = False\<rparr>, w')"
  using assms
  by (auto simp: WeatherService_getForecast_def forecast_url_missing_def new_error_def
      truthy_str_def)

lemma getForecast_on_null:
  assumes "validateCoordinates latitude longitude = Inr ()"
    and "getGridPoint apiClient points_fetch latitude longitude w = (Inr Null, w')"
  shows "WeatherService_getForecast points_fetch forecast_fetch latitude longitude w =
     (Inl \<lparr>message = str ''Failed to retrieve forecast: Cannot read properties of null (reading '' @
                     [39] @ str ''properties'' @ [39] @ str '')'',
           code = FORECAST_RETRIEVAL_FAILED, statusCode = None, retryable = False\<rparr>, w')"
  using assms
  by (simp add: WeatherService_getForecast_def forecast_retrieval_failed_def new_error_def
      cannot_read_def str_def)

lemma valid_40_74: "validateCoordinates (Finite 40) (Finite (- 74)) = Inr ()"
  by (simp add: validateCoordinates_def num_greater_def)

text \<open>
  Claim C5, as amended. When the coordinates are valid and the grid-point call returns a JSON
  object that carries no forecast URL (absent, or the empty string), \<open>getForecast\<close> fails
  with \<open>FORECAST_URL_MISSING\<close>, \<open>retryable = false\<close>. When the grid-point call returns the
  JSON value \<open>null\<close>, which carries no forecast URL either, \<open>getForecast\<close> fails with
  \<open>FORECAST_RETRIEVAL_FAILED\<close>, \<open>retryable = false\<close>. In both cases the world is the one
  the grid-point call left: no further request was sent, whatever the forecast oracle would
  answer.
\<close>

theorem getForecast_url_missing:
  assumes "validateCoordinates latitude longitude = Inr ()"
    and "getGridPoint apiClient points_fetch latitude longitude w = (Inr body, w')"
  shows "(body = Obj pointsData \<longrightarrow>
          (forecast_url_of pointsData = None \<or> forecast_url_of pointsData = Some []) \<longrightarrow>
          WeatherService_getForecast points_fetch forecast_fetch latitude longitude w =
            (Inl \<lparr>message = str ''Failed to get forecast URL from grid point data'',
                  code = FORECAST_URL_MISSING, statusCode = None, retryable = False\<rparr>, w')) \<and>
         (body = Null \<longrightarrow>
          WeatherService_getForecast points_fetch forecast_fetch latitude longitude w =
            (Inl \<lparr>message = str ''Failed to retrieve forecast: Cannot read properties of null (reading '' @
                            [39] @ str ''properties'' @ [39] @ str '')'',
                  code = FORECAST_RETRIEVAL_FAILED, statusCode = None, retryable = False\<rparr>, w'))"
  using getForecast_on_object [OF assms(1), of points_fetch w pointsData w' forecast_fetch]
    getForecast_on_null [OF assms(1), of points_fetch w w' forecast_fetch] assms(2)
  by blast

theorem getForecast_url_missing_witness:
  "validateCoordinates (Finite 40) (Finite (- 74)) = Inr () \<and>
   getGridPoint apiClient upstream_without_url (Finite 40) (Finite (- 74)) empty_world =
     (Inr (Obj points_without_url),
      empty_world\<lparr>requests := requests empty_world @
        [\<lparr>url = baseUrl apiClient @ str ''/points/'' @ formatCoordinates (Finite 40) (Finite (- 74)),
          headers = request_headers apiClient\<rparr>]\<rparr>) \<and>
   (forecast_url_of points_without_url = None \<or> forecast_url_of points_without_url = Some []) \<and>
   WeatherService_getForecast upstream_without_url upstream_no_forecast
       (Finite 40) (Finite (- 74)) empty_world =
     (Inl \<lparr>message = str ''Failed to get forecast URL from grid point data'',
           code = FORECAST_URL_MISSING, statusCode = None, retryable = False\<rparr>,
      empty_world\<lparr>requests := requests empty_world @
        [\<lparr>url = baseUrl apiClient @ str ''/points/'' @ formatCoordinates (Finite 40) (Finite (- 74)),
          headers = request_headers apiClient\<rparr>]\<rparr>) \<and>
   getGridPoint apiClient upstream_null_body (Finite 40) (Finite (- 74)) empty_world =
     (Inr Null,
      empty_world\<lparr>requests := requests empty_world @
        [\<lparr>url = baseUrl apiClient @ str ''/points/'' @ formatCoordinates (Finite 40) (Finite (- 74)),
          headers = request_headers apiClient\<rparr>]\<rparr>) \<and>
   WeatherService_getForecast upstream_null_body upstream_no_forecast
       (Finite 40) (Finite (- 74)) empty_world =
     (Inl \<lparr>message = str ''Failed to retrieve forecast: Cannot read properties of null (reading '' @
                     [39] @ str ''properties'' @ [39] @ str '')'',
           code = FORECAST_RETRIEVAL_FAILED, statusCode = None, retryable = False\<rparr>,
      empty_world\<lparr>requests := requests empty_world @
        [\<lparr>url = baseUrl apiClient @ str ''/points/'' @ formatCoordinates (Finite 40) (Finite (- 74)),
          headers = request_headers apiClient\<rparr>]\<rparr>)"
proof -
  let ?req = "\<lparr>url = baseUrl apiClient @ str ''/points/'' @ formatCoordinates (Finite 40) (Finite (- 74)),
               headers = request_headers apiClient\<rparr>"
  let ?w1 = "empty_world\<lparr>requests := requests empty_world @ [?req]\<rparr>"
  have h1: "validateCoordinates (Finite 40) (Finite (- 74)) = Inr ()" by (rule valid_40_74)
  have h2: "getGridPoint apiClient upstream_without_url (Finite 40) (Finite (- 74)) empty_world =
      (Inr (Obj points_without_url), ?w1)"
    by (rule getGridPoint_parsed [where r = response_200_without_url])
       (simp_all add: upstream_without_url_def ok_def response_200_without_url_def)
  have h3: "forecast_url_of points_without_url = None \<or> forecast_url_of points_without_url = Some []"
    by (simp add: forecast_url_of_def points_without_url_def)
  have h4: "getGridPoint apiClient upstream_null_body (Finite 40) (Finite (- 74)) empty_world =
      (Inr Null, ?w1)"
    by (rule getGridPoint_parsed [where r = response_200_null])
       (simp_all add: upstream_null_body_def ok_def response_200_null_def)
  show ?thesis
    using h1 h2 h3 h4
      getForecast_url_missing [where latitude = "Finite 40" and longitude = "Finite (- 74)"
        and points_fetch = upstream_without_url and forecast_fetch = upstream_no_forecast
        and w = empty_world and body = "Obj points_without_url"
        and pointsData = points_without_url and w' = ?w1]
      getForecast_url_missing [where latitude = "Finite 40" and longitude = "Finite (- 74)"
        and points_fetch = upstream_null_body and forecast_fetch = upstream_no_forecast
        and w = empty_world and body = Null and w' = ?w1]
    by blast
qed

text \<open>
  The claim as stated fails: a grid-point response with the body \<open>null\<close> carries no forecast
  URL, and \<open>getForecast\<close> fails with \<open>FORECAST_RETRIEVAL_FAILED\<close>, not with
  \<open>FORECAST_URL_MISSING\<close>.
\<close>

theorem getForecast_null_body:
  "upstream_null_body 0 sample_request = Resolves response_200_null \<and>
   ok response_200_null \<and> json response_200_null = Inr Null \<and>
   WeatherService_getForecast upstream_null_body upstream_no_forecast
       (Finite 40) (Finite (- 74)) empty_world =
     (Inl \<lparr>message = str ''Failed to retrieve forecast: Cannot read properties of null (reading '' @
                     [39] @ str ''properties'' @ [39] @ str '')'',
           code = FORECAST_RETRIEVAL_FAILED, statusCode = None, retryable = False\<rparr>,
      empty_world\<lparr>requests := requests empty_world @
        [\<lparr>url = baseUrl apiClient @ str ''/points/'' @ formatCoordinates (Finite 40) (Finite (- 74)),
          headers = request_headers apiClient\<rparr>]\<rparr>)"
proof -
  have g: "getGridPoint apiClient upstream_null_body (Finite 40) (Finite (- 74)) empty_world =
      (Inr Null,
       empty_world\<lparr>requests := requests empty_world @
         [\<lparr>url = baseUrl apiClient @ str ''/points/'' @ formatCoordinates (Finite 40) (Finite (- 74)),
           headers = request_headers apiClient\<rparr>]\<rparr>)"
    by (rule getGridPoint_parsed [where r = response_200_null])
       (simp_all add: upstream_null_body_def ok_def response_200_null_def)
  have r: "upstream_null_body 0 sample_request = Resolves response_200_null"
    "ok response_200_null" "json response_200_null = Inr Null"
    by (simp_all add: upstream_null_body_def ok_def response_200_null_def)
  show ?thesis
    using r getForecast_on_null [OF valid_40_74 g, of upstream_no_forecast] by simp
qed

lemma getForecast_world:
  assumes "validateCoordinates latitude longitude = Inr ()"
    and "getGridPoint apiClient points_fetch latitude longitude w = (res, w1)"
  shows "snd (WeatherService_getForecast points_fetch forecast_fetch latitude longitude w) = w1 \<or>
     (\<exists>fu. snd (WeatherService_getForecast points_fetch forecast_fetch latitude longitude w) =
            snd (NWSAPIClient_getForecast apiClient forecast_fetch fu w1))"
  using assms
  by (auto simp: WeatherService_getForecast_def Let_def
      split: sum.splits js.splits option.splits prod.splits) (metis snd_conv)+

lemma getForecast_first_request:
  assumes "validateCoordinates latitude longitude = Inr ()"
  shows "\<exists>rest. requests (snd (WeatherService_getForecast points_fetch forecast_fetch latitude longitude w)) =
     requests w @
     \<lparr>url = NWS_API_BASE @ str ''/points/'' @ formatCoordinates latitude longitude,
      headers = request_headers apiClient\<rparr> # rest"
proof -
  let ?u = "NWS_API_BASE @ str ''/points/'' @ formatCoordinates latitude longitude"
  let ?req = "\<lparr>url = ?u, headers = request_headers apiClient\<rparr>"
  let ?res = "WeatherService_getForecast points_fetch forecast_fetch latitude longitude w"
  obtain res w1 where g: "getGridPoint apiClient points_fetch latitude longitude w = (res, w1)"
    by (cases "getGridPoint apiClient points_fetch latitude longitude w")
  obtain rest where r1: "requests w1 = requests w @ ?req # rest"
    using makeRequest_first_request [of apiClient points_fetch ?u w] g
    by (auto simp: getGridPoint_def apiClient_def Let_def)
  from getForecast_world [OF assms g, of forecast_fetch]
  show ?thesis
  proof
    assume "snd ?res = w1"
    with r1 show ?thesis by simp
  next
    assume "\<exists>fu. snd ?res = snd (NWSAPIClient_getForecast apiClient forecast_fetch fu w1)"
    then obtain fu where f: "snd ?res = snd (NWSAPIClient_getForecast apiClient forecast_fetch fu w1)"
      by blast
    obtain rest2 where "requests (snd (NWSAPIClient_getForecast apiClient forecast_fetch fu w1)) =
        requests w1 @ rest2"
      using makeRequest_requests_extend [of apiClient forecast_fetch fu MAX_RETRIES w1]
      by (auto simp: NWSAPIClient_getForecast_def)
    with f r1 show ?thesis by simp
  qed
qed

lemma validateCoordinates_NaN_lat_code:
  "map_sum code id (validateCoordinates NaN longitude) =
     (if num_less longitude (Finite (- 180)) \<or> num_greater longitude (Finite 180)
      then Inl INVALID_LONGITUDE else Inr ())"
  by (simp add: validateCoordinates_NaN_lat new_error_def)

lemma validateCoordinates_NaN_lon_code:
  "map_sum code id (validateCoordinates latitude NaN) =
     (if num_less latitude (Finite (- 90)) \<or> num_greater latitude (Finite 90)
      then Inl INVALID_LATITUDE else Inr ())"
  by (simp add: validateCoordinates_NaN_lon new_error_def)

text \<open>
  Claim C9, as amended. \<open>validateCoordinates\<close> accepts NaN: a NaN latitude never raises
  \<open>INVALID_LATITUDE\<close> and a NaN longitude never raises \<open>INVALID_LONGITUDE\<close>, since every
  comparison with NaN is false. The range check of the other coordinate still applies, so
  validation succeeds exactly when the other coordinate is NaN too or lies in its range. For
  (NaN, NaN) it succeeds, and \<open>getForecast\<close> sends, as its first request, the grid-point
  request for the path segment \<open>NaN,NaN\<close>.
\<close>

theorem validateCoordinates_accepts_NaN:
  "validateCoordinates NaN NaN = Inr () \<and>
   map_sum code id (validateCoordinates NaN longitude) =
     (if num_less longitude (Finite (- 180)) \<or> num_greater longitude (Finite 180)
      then Inl INVALID_LONGITUDE else Inr ()) \<and>
   map_sum code id (validateCoordinates latitude NaN) =
     (if num_less latitude (Finite (- 90)) \<or> num_greater latitude (Finite 90)
      then Inl INVALID_LATITUDE else Inr ()) \<and>
   formatCoordinates NaN NaN = str ''NaN,NaN'' \<and>
   (\<exists>rest. requests (snd (WeatherService_getForecast points_fetch forecast_fetch NaN NaN w)) =
      requests w @
      \<lparr>url = str ''https://api.weather.gov/points/NaN,NaN'',
       headers = request_headers apiClient\<rparr> # rest)"
proof -
  have v: "validateCoordinates NaN NaN = Inr ()"
    by (simp add: validateCoordinates_NaN_lat num_greater_def)
  have u: "NWS_API_BASE @ str ''/points/'' @ formatCoordinates NaN NaN =
      str ''https://api.weather.gov/points/NaN,NaN''"
    by (simp add: NWS_API_BASE_def formatCoordinates_NaN str_def)
  show ?thesis
    using v validateCoordinates_NaN_lat_code [of longitude]
      validateCoordinates_NaN_lon_code [of latitude] formatCoordinates_NaN
      getForecast_first_request [OF v, of points_fetch forecast_fetch w]
    unfolding u by blast
qed

text \<open>
  The claim as stated fails: with a NaN latitude and the longitude 200 the longitude check
  fires, validation raises \<open>INVALID_LONGITUDE\<close> and \<open>getForecast\<close> sends no request; with a
  NaN longitude and the latitude 91 validation raises \<open>INVALID_LATITUDE\<close>.
\<close>

theorem validateCoordinates_NaN_and_out_of_range:
  "map_sum code id (validateCoordinates NaN (Finite 200)) = Inl INVALID_LONGITUDE \<and>
   map_sum code id (validateCoordinates (Finite 91) NaN) = Inl INVALID_LATITUDE \<and>
   validateCoordinates NaN (Finite 200) \<noteq> Inr () \<and>
   map_sum code id
     (fst (WeatherService_getForecast upstream_without_url upstream_no_forecast
             NaN (Finite 200) empty_world)) = Inl INVALID_LONGITUDE \<and>
   snd (WeatherService_getForecast upstream_without_url upstream_no_forecast
          NaN (Finite 200) empty_world) = empty_world"
proof -
  have a: "map_sum code id (validateCoordinates NaN (Finite 200)) = Inl INVALID_LONGITUDE"
    by (simp add: validateCoordinates_NaN_lat_code num_greater_def)
  have b: "map_sum code id (validateCoordinates (Finite 91) NaN) = Inl INVALID_LATITUDE"
    by (simp add: validateCoordinates_NaN_lon_code num_greater_def)
  obtain e where e: "validateCoordinates NaN (Finite 200) = Inl e"
    using a by (cases "validateCoordinates NaN (Finite 200)") simp_all
  have c: "WeatherService_getForecast upstream_without_url upstream_no_forecast
      NaN (Finite 200) empty_world = (Inl e, empty_world)"
    by (simp add: WeatherService_getForecast_def e)
  show ?thesis using a b c e by simp
qed

section \<open>Formatting\<close>

text \<open>
  Claim C10. The formatters treat a falsy field as they treat an absent one: a temperature
  of 0 (or NaN) and an empty string in any string field give the same text as the field left
  out. With every field present and falsy, a forecast period renders \<open>Unknown\<close> for name,
  temperature and wind speed (and the defaults of the other fields), an alert \<open>Unknown\<close> and
  \<open>No headline\<close>.
\<close>

theorem placeholders_for_falsy_fields:
  "formatForecastPeriod (p\<lparr>temperature := Some (Finite 0)\<rparr>) = formatForecastPeriod (p\<lparr>temperature := None\<rparr>) \<and>
   formatForecastPeriod (p\<lparr>temperature := Some NaN\<rparr>) = formatForecastPeriod (p\<lparr>temperature := None\<rparr>) \<and>
   formatForecastPeriod (p\<lparr>name := Some []\<rparr>) = formatForecastPeriod (p\<lparr>name := None\<rparr>) \<and>
   formatForecastPeriod (p\<lparr>temperatureUnit := Some []\<rparr>) = formatForecastPeriod (p\<lparr>temperatureUnit := None\<rparr>) \<and>
   formatForecastPeriod (p\<lparr>windSpeed := Some []\<rparr>) = formatForecastPeriod (p\<lparr>windSpeed := None\<rparr>) \<and>
   formatForecastPeriod (p\<lparr>windDirection := Some []\<rparr>) = formatForecastPeriod (p\<lparr>windDirection := None\<rparr>) \<and>
   formatForecastPeriod (p\<lparr>shortForecast := Some []\<rparr>) = formatForecastPeriod (p\<lparr>shortForecast := None\<rparr>) \<and>
   formatAlert (f\<lparr>properties := (properties f)\<lparr>event := Some []\<rparr>\<rparr>) =
     formatAlert (f\<lparr>properties := (properties f)\<lparr>event := None\<rparr>\<rparr>) \<and>
   formatAlert (f\<lparr>properties := (properties f)\<lparr>areaDesc := Some []\<rparr>\<rparr>) =
     formatAlert (f\<lparr>properties := (properties f)\<lparr>areaDesc := None\<rparr>\<rparr>) \<and>
   formatAlert (f\<lparr>properties := (properties f)\<lparr>severity := Some []\<rparr>\<rparr>) =
     formatAlert (f\<lparr>properties := (properties f)\<lparr>severity := None\<rparr>\<rparr>) \<and>
   formatAlert (f\<lparr>properties := (properties f)\<lparr>alert_status := Some []\<rparr>\<rparr>) =
     formatAlert (f\<lparr>properties := (properties f)\<lparr>alert_status := None\<rparr>\<rparr>) \<and>
   formatAlert (f\<lparr>properties := (properties f)\<lparr>headline := Some []\<rparr>\<rparr>) =
     formatAlert (f\<lparr>properties := (properties f)\<lparr>headline := None\<rparr>\<rparr>) \<and>
   formatForecastPeriod
     \<lparr>name = Some [], temperature = Some (Finite 0), temperatureUnit = Some [],
      windSpeed = Some [], windDirection = Some [], shortForecast = Some []\<rparr> =
     join newline
       [str ''Unknown:'', str ''Temperature: Unknown'' @ degree_sign @ str ''F'',
        str ''Wind: Unknown '', str ''No forecast available'', str ''---''] \<and>
   formatAlert
     \<lparr>properties = \<lparr>event = Some [], areaDesc = Some [], severity = Some [],
                     alert_status = Some [], headline = Some []\<rparr>\<rparr> =
     join newline
       [str ''Event: Unknown'', str ''Area: Unknown'', str ''Severity: Unknown'',
        str ''Status: Unknown'', str ''Headline: No headline'', str ''---'']"
  by (simp add: formatForecastPeriod_def formatAlert_def truthy_str_def str_def Let_def)

section \<open>Coordinate formatting\<close>

lemma decimal_nonempty: "decimal n \<noteq> []"
  by (subst decimal.simps) simp

lemma decimal_digits: "list_all is_digit (decimal n)"
proof (induction n rule: decimal.induct)
  case (1 n)
  show ?case
  proof (cases "n < 10")
    case True
    then show ?thesis by (subst decimal.simps) (simp add: is_digit_def digit_char_def)
  next
    case False
    have "n mod 10 < 10" by simp
    then have "is_digit (digit_char (n mod 10))"
      unfolding is_digit_def digit_char_def by arith
    with False "1.IH" show ?thesis by (subst decimal.simps) simp
  qed
qed

lemma read_digits_snoc: "read_digits (xs @ [c]) = 10 * read_digits xs + (c - 48)"
  by (simp add: read_digits_def)

lemma read_digits_decimal: "read_digits (decimal n) = n"
proof (induction n rule: decimal.induct)
  case (1 n)
  show ?case
  proof (cases "n < 10")
    case True
    then show ?thesis by (subst decimal.simps) (simp add: read_digits_def digit_char_def)
  next
    case False
    with "1.IH" show ?thesis
      by (subst decimal.simps) (simp add: read_digits_snoc digit_char_def)
  qed
qed

lemma read_digits_zeros: "read_digits (replicate k 48 @ m) = read_digits m"
proof (induction k)
  case 0
  show ?case by simp
next
  case (Suc k)
  have "read_digits (48 # ys) = read_digits ys" for ys
    by (simp add: read_digits_def)
  with Suc show ?case by simp
qed

lemma filter_digits: "list_all is_digit xs \<Longrightarrow> filter is_digit xs = xs"
  by (induction xs) simp_all

text \<open>The digits \<open>toFixed 4\<close> lays out: the decimal form of the rounded value, padded with
  zeros to five digits at least.\<close>

lemma toFixed_4_unfold:
  assumes "\<bar>a\<bar> < 10 ^ 21"
  shows "toFixed 4 (Finite a) =
     (if a < 0 then [45] else []) @
     (let m = decimal (nat \<lfloor>\<bar>a\<bar> * 10 ^ 4 + 1 / 2\<rfloor>);
          z = (if length m \<le> 4 then replicate (5 - length m) 48 @ m else m)
      in take (length z - 4) z @ [46] @ drop (length z - 4) z)"
proof -
  have "\<not> 10 ^ 21 \<le> \<bar>a\<bar>" using assms by simp
  then show ?thesis
    by (simp add: toFixed_def Let_def str_def digit_char_def)
qed

lemma four_decimalsI:
  assumes "6 \<le> length t" and "hd t \<noteq> 45"
    and "list_all is_digit (take (length t - 5) t)"
    and "t ! (length t - 5) = 46"
    and "list_all is_digit (drop (length t - 4) t)"
  shows "four_decimals t" and "four_decimals (45 # t)"
proof -
  show "four_decimals t"
    unfolding four_decimals_def Let_def using assms by simp
  show "four_decimals (45 # t)"
    unfolding four_decimals_def Let_def using assms by simp
qed

lemma split_four_decimals:
  assumes "5 \<le> length z" and "list_all is_digit z"
  shows "four_decimals (take (length z - 4) z @ 46 # drop (length z - 4) z)"
    and "four_decimals (45 # take (length z - 4) z @ 46 # drop (length z - 4) z)"
    and "read_digits (filter is_digit (take (length z - 4) z @ 46 # drop (length z - 4) z))
           = read_digits z"
    and "read_digits (filter is_digit (45 # take (length z - 4) z @ 46 # drop (length z - 4) z))
           = read_digits z"
proof -
  define ip where "ip = take (length z - 4) z"
  define fp where "fp = drop (length z - 4) z"
  define t where "t = ip @ 46 # fp"
  have li: "length ip = length z - 4" unfolding ip_def by simp
  have lf: "length fp = 4" unfolding fp_def using assms(1) by simp
  have lt: "length t = length z + 1" unfolding t_def using li lf assms(1) by simp
  have di: "list_all is_digit ip"
    unfolding ip_def using assms(2) by (auto simp: list_all_iff dest: in_set_takeD)
  have df: "list_all is_digit fp"
    unfolding fp_def using assms(2) by (auto simp: list_all_iff dest: in_set_dropD)
  have ne: "ip \<noteq> []" using li assms(1) by auto
  then have "hd t = hd ip" unfolding t_def by simp
  moreover have "is_digit (hd ip)" using di ne by (cases ip) simp_all
  ultimately have h45: "hd t \<noteq> 45" by (auto simp: is_digit_def)
  have k5: "length (ip @ 46 # fp) - 5 = length ip" using lf by simp
  have k4: "length (ip @ 46 # fp) - 4 = Suc (length ip)" using lf by simp
  have t1: "take (length t - 5) t = ip" unfolding t_def k5 by simp
  have t2: "t ! (length t - 5) = 46" unfolding t_def k5 by simp
  have t3: "drop (length t - 4) t = fp" unfolding t_def k4 by simp
  have l6: "6 \<le> length t" using lt assms(1) by simp
  have a: "four_decimals t"
    by (rule four_decimalsI(1) [OF l6 h45]) (simp_all only: t1 t2 t3 di df)
  have b: "four_decimals (45 # t)"
    by (rule four_decimalsI(2) [OF l6 h45]) (simp_all only: t1 t2 t3 di df)
  have n45: "\<not> is_digit 45" and n46: "\<not> is_digit 46" by (simp_all add: is_digit_def)
  have f: "filter is_digit t = ip @ fp"
    unfolding t_def using di df n46 by (simp add: filter_digits)
  have z: "ip @ fp = z" unfolding ip_def fp_def by simp
  have c: "read_digits (filter is_digit t) = read_digits z" using f z by simp
  have d: "read_digits (filter is_digit (45 # t)) = read_digits z" using f z n45 by simp
  show "four_decimals (take (length z - 4) z @ 46 # drop (length z - 4) z)"
    using a unfolding t_def ip_def fp_def .
  show "four_decimals (45 # take (length z - 4) z @ 46 # drop (length z - 4) z)"
    using b unfolding t_def ip_def fp_def .
  show "read_digits (filter is_digit (take (length z - 4) z @ 46 # drop (length z - 4) z))
           = read_digits z"
    using c unfolding t_def ip_def fp_def .
  show "read_digits (filter is_digit (45 # take (length z - 4) z @ 46 # drop (length z - 4) z))
           = read_digits z"
    using d unfolding t_def ip_def fp_def .
qed


lemma toFixed_four_decimals:
  assumes "\<bar>a\<bar> < 10 ^ 21"
  shows "four_decimals (toFixed 4 (Finite a))"
    and "read_digits (filter is_digit (toFixed 4 (Finite a))) = nat \<lfloor>\<bar>a\<bar> * 10 ^ 4 + 1 / 2\<rfloor>"
proof -
  define m where "m = decimal (nat \<lfloor>\<bar>a\<bar> * 10 ^ 4 + 1 / 2\<rfloor>)"
  define z where "z = (if length m \<le> 4 then replicate (5 - length m) 48 @ m else m)"
  have "m \<noteq> []" unfolding m_def by (rule decimal_nonempty)
  then have ml: "1 \<le> length m" by (cases m) simp_all
  have zl: "5 \<le> length z" using ml unfolding z_def by simp
  have md: "list_all is_digit m" unfolding m_def by (rule decimal_digits)
  have "is_digit 48" by (simp add: is_digit_def)
  then have zd: "list_all is_digit z" using md unfolding z_def by (simp add: list_all_iff)
  have "read_digits z = read_digits m" unfolding z_def by (simp add: read_digits_zeros)
  then have rz: "read_digits z = nat \<lfloor>\<bar>a\<bar> * 10 ^ 4 + 1 / 2\<rfloor>"
    unfolding m_def by (simp only: read_digits_decimal)
  have tf: "toFixed 4 (Finite a) =
      (if a < 0 then [45] else []) @ take (length z - 4) z @ [46] @ drop (length z - 4) z"
    unfolding toFixed_4_unfold [OF assms] z_def m_def Let_def ..
  show "four_decimals (toFixed 4 (Finite a))"
    unfolding tf using split_four_decimals(1,2) [OF zl zd] by (cases "a < 0") simp_all
  show "read_digits (filter is_digit (toFixed 4 (Finite a))) = nat \<lfloor>\<bar>a\<bar> * 10 ^ 4 + 1 / 2\<rfloor>"
    unfolding tf rz [symmetric] using split_four_decimals(3,4) [OF zl zd]
    by (cases "a < 0") simp_all
qed

text \<open>Evaluation at the doubles that the literals 40.71275 and -74.00601 denote.\<close>

lemma denotes_example:
  "denotes (4071275 / 100000) 5729810179038380 (- 47)"
  "denotes (- 7400601 / 100000) (- 5207709985299644) (- 46)"
  by (simp_all add: denotes_def binary64_def pow2_def)

lemma floor_lat: "\<lfloor>895283939986374651 / 2199023255552 :: rat\<rfloor> = 407127"
  by code_simp

lemma decimal_lat: "decimal 407127 = str ''407127''"
  by (simp add: decimal.simps digit_char_def str_def)

lemma toFixed_lat: "toFixed 4 (Finite (binary64 5729810179038380 (- 47))) = str ''40.7127''"
  by (simp add: toFixed_def Let_def binary64_def pow2_def floor_lat decimal_lat) (simp add: str_def)

lemma floor_lon: "\<lfloor>813705234958883263 / 1099511627776 :: rat\<rfloor> = 740060"
  by code_simp

lemma decimal_lon: "decimal 740060 = str ''740060''"
  by (simp add: decimal.simps digit_char_def str_def)

lemma toFixed_lon: "toFixed 4 (Finite (binary64 (- 5207709985299644) (- 46))) = str ''-74.0060''"
  by (simp add: toFixed_def Let_def binary64_def pow2_def floor_lon decimal_lon) (simp add: str_def)

lemma formatCoordinates_example:
  "formatCoordinates (Finite (binary64 5729810179038380 (- 47)))
     (Finite (binary64 (- 5207709985299644) (- 46))) = str ''40.7127,-74.0060''"
  by (simp only: formatCoordinates_def COORDINATE_PRECISION_def toFixed_lat toFixed_lon)
     (simp add: str_def)

text \<open>Evaluation at \<open>10 ^ 21\<close>, where \<open>toFixed\<close> turns to \<open>Number::toString\<close>.\<close>

lemma len_decimal_big:
  "length (decimal 1000000000000000000000) = 22"
  "length (decimal (Suc 0)) = 1"
  by (simp_all add: decimal.simps)

lemma bits_big:
  "bit_length 1000000000000000000000 = 70"
  "bit_length 2000000000000000000000 = 71"
  "bit_length 10000000000000000000000 = 74"
  "bit_length (Suc 0) = 1"
  by (simp_all add: bit_length.simps)

lemma floor_log10_1e21: "floor_log10 1000000000000000000000 = 21"
  by (simp add: floor_log10_def Let_def len_decimal_big pow10_def)

lemma floor_log2_big:
  "floor_log2 1000000000000000000000 = 69"
  "floor_log2 2000000000000000000000 = 70"
  "floor_log2 10000000000000000000000 = 73"
  by (simp_all add: floor_log2_def Let_def bits_big pow2_def)

lemma round_exact: "round_half_even (of_int k) = k"
  by (simp add: round_half_even_def)

lemma to_binary64_1e21: "to_binary64 1000000000000000000000 = Finite 1000000000000000000000"
proof -
  have q: "(1000000000000000000000 :: rat) / pow2 17 = of_int 7629394531250000"
    by (simp add: pow2_def)
  have v: "of_int 7629394531250000 * pow2 17 = (1000000000000000000000 :: rat)"
    by (simp add: pow2_def)
  have b: "\<not> pow2 1024 \<le> (1000000000000000000000 :: rat)" by (simp add: pow2_def)
  show ?thesis
    unfolding to_binary64_def Let_def floor_log2_big using b
    by (simp add: q round_exact v del: of_int_numeral)
qed

lemma to_binary64_2e21: "to_binary64 2000000000000000000000 = Finite 2000000000000000000000"
proof -
  have q: "(2000000000000000000000 :: rat) / pow2 18 = of_int 7629394531250000"
    by (simp add: pow2_def)
  have v: "of_int 7629394531250000 * pow2 18 = (2000000000000000000000 :: rat)"
    by (simp add: pow2_def)
  have b: "\<not> pow2 1024 \<le> (2000000000000000000000 :: rat)" by (simp add: pow2_def)
  show ?thesis
    unfolding to_binary64_def Let_def floor_log2_big using b
    by (simp add: q round_exact v del: of_int_numeral)
qed

lemma to_binary64_1e22: "to_binary64 10000000000000000000000 = Finite 10000000000000000000000"
proof -
  have q: "(10000000000000000000000 :: rat) / pow2 21 = of_int 4768371582031250"
    by (simp add: pow2_def)
  have v: "of_int 4768371582031250 * pow2 21 = (10000000000000000000000 :: rat)"
    by (simp add: pow2_def)
  have b: "\<not> pow2 1024 \<le> (10000000000000000000000 :: rat)" by (simp add: pow2_def)
  show ?thesis
    unfolding to_binary64_def Let_def floor_log2_big using b
    by (simp add: q round_exact v del: of_int_numeral)
qed

lemma floor_tenth: "\<lfloor>1 / 10 :: rat\<rfloor> = 0"
  by code_simp

lemma replicate_4: "replicate 4 (48::nat) = [48, 48, 48, 48]"
  by (simp add: eval_nat_numeral)

lemma digit_candidates_1e21:
  "digit_candidates 1000000000000000000000 (Suc 0) = [(0, 22, Suc 0)]"
  by (simp add: digit_candidates_def Let_def floor_log10_1e21 pow10_def
      floor_tenth to_binary64_1e21 to_binary64_2e21 to_binary64_1e22)

lemma shortest_digits_1e21: "shortest_digits 1000000000000000000000 = (22, Suc 0, Suc 0)"
proof -
  have "search_digits 1000000000000000000000 (Suc 16) (Suc 0) = (22, Suc 0, Suc 0)"
    by (simp only: search_digits.simps digit_candidates_1e21 nearest_candidate.simps) simp
  then show ?thesis by (simp add: shortest_digits_def)
qed

lemma decimal_1_21: "decimal (Suc 0) = str ''1''" "decimal 21 = str ''21''"
  by (simp_all add: decimal.simps digit_char_def str_def)

lemma Number_toString_1e21: "Number_toString (Finite (10 ^ 21)) = str ''1e+21''"
  by (simp add: positive_toString_def shortest_digits_1e21 decimal_1_21 Let_def) (simp add: str_def)

lemma toFixed_1e21: "toFixed 4 (Finite (10 ^ 21)) = str ''1e+21''"
  using Number_toString_1e21 by (simp add: toFixed_def Let_def)

lemma toFixed_zero: "toFixed 4 (Finite 0) = str ''0.0000''"
  by (simp add: toFixed_def Let_def decimal.simps digit_char_def str_def replicate_4)

lemma formatCoordinates_1e21: "formatCoordinates (Finite (10 ^ 21)) (Finite 0) = str ''1e+21,0.0000''"
  by (simp only: formatCoordinates_def COORDINATE_PRECISION_def toFixed_1e21 toFixed_zero)
     (simp add: str_def)

text \<open>\<open>toFixed 4\<close> below \<open>10 ^ 21\<close> is the rendering the specification describes.\<close>

lemma decimal_lt_10: "n < 10 \<Longrightarrow> decimal n = [digit_char n]"
  by (subst decimal.simps) simp

lemma decimal_ge_10: "10 \<le> n \<Longrightarrow> decimal n = decimal (n div 10) @ [digit_char (n mod 10)]"
  by (subst decimal.simps) simp

lemma decimal_ge_10000:
  assumes "10000 \<le> n"
  shows "decimal n = decimal (n div 10000) @
     [digit_char (n div 1000 mod 10), digit_char (n div 100 mod 10),
      digit_char (n div 10 mod 10), digit_char (n mod 10)]"
proof -
  have d1: "n div 10 div 10 = n div 100" by (simp add: div_mult2_eq [symmetric])
  have d2: "n div 100 div 10 = n div 1000" by (simp add: div_mult2_eq [symmetric])
  have d3: "n div 1000 div 10 = n div 10000" by (simp add: div_mult2_eq [symmetric])
  have g0: "10 \<le> n" and g1: "10 \<le> n div 10" and g2: "10 \<le> n div 100"
    and g3: "10 \<le> n div 1000"
    using assms by simp_all
  have a: "decimal n = decimal (n div 10) @ [digit_char (n mod 10)]"
    by (rule decimal_ge_10 [OF g0])
  have b: "decimal (n div 10) = decimal (n div 100) @ [digit_char (n div 10 mod 10)]"
    using decimal_ge_10 [OF g1] by (simp only: d1)
  have c: "decimal (n div 100) = decimal (n div 1000) @ [digit_char (n div 100 mod 10)]"
    using decimal_ge_10 [OF g2] by (simp only: d2)
  have d: "decimal (n div 1000) = decimal (n div 10000) @ [digit_char (n div 1000 mod 10)]"
    using decimal_ge_10 [OF g3] by (simp only: d3)
  show ?thesis by (simp only: a b c d append_assoc append_Cons append_Nil)
qed

lemma replicate_small:
  "replicate 3 (48::nat) = [48, 48, 48]" "replicate 2 (48::nat) = [48, 48]"
  "replicate 1 (48::nat) = [48]"
  by (simp_all add: eval_nat_numeral)

lemma padded_lt_10000:
  assumes "n < 10000"
  shows "length (decimal n) \<le> 4 \<and>
     replicate (5 - length (decimal n)) 48 @ decimal n =
       [48, digit_char (n div 1000 mod 10), digit_char (n div 100 mod 10),
        digit_char (n div 10 mod 10), digit_char (n mod 10)]"
proof -
  have z: "digit_char 0 = 48" by (simp add: digit_char_def)
  consider (a) "n < 10" | (b) "10 \<le> n" "n < 100" | (c) "100 \<le> n" "n < 1000"
    | (d) "1000 \<le> n" "n < 10000"
    using assms by linarith
  then show ?thesis
  proof cases
    case a
    then have m: "decimal n = [digit_char n]" by (rule decimal_lt_10)
    from a have "n div 1000 = 0" "n div 100 = 0" "n div 10 = 0" "n mod 10 = n" by simp_all
    then show ?thesis by (simp add: m z replicate_4)
  next
    case b
    then have q: "n div 10 < 10" by simp
    have m: "decimal n = [digit_char (n div 10), digit_char (n mod 10)]"
      using decimal_ge_10 [OF b(1)] decimal_lt_10 [OF q] by simp
    from b have "n div 1000 = 0" "n div 100 = 0" "n div 10 mod 10 = n div 10" by simp_all
    then show ?thesis by (simp add: m z replicate_small)
  next
    case c
    then have g: "10 \<le> n div 10" and q: "n div 10 div 10 < 10" by simp_all
    have e: "n div 10 div 10 = n div 100" by (simp add: div_mult2_eq [symmetric])
    have m: "decimal n = [digit_char (n div 100), digit_char (n div 10 mod 10), digit_char (n mod 10)]"
      using decimal_ge_10 [of n] decimal_ge_10 [OF g] decimal_lt_10 [OF q] c(1)
      by (simp add: e)
    from c have "n div 1000 = 0" "n div 100 mod 10 = n div 100" by simp_all
    then show ?thesis by (simp add: m z replicate_small)
  next
    case d
    then have g: "10 \<le> n div 10" and h: "10 \<le> n div 100" and q: "n div 1000 < 10"
      by simp_all
    have e1: "n div 10 div 10 = n div 100" by (simp add: div_mult2_eq [symmetric])
    have e2: "n div 100 div 10 = n div 1000" by (simp add: div_mult2_eq [symmetric])
    have m1: "decimal (n div 100) = [digit_char (n div 1000), digit_char (n div 100 mod 10)]"
      using decimal_ge_10 [OF h] decimal_lt_10 [OF q] by (simp add: e2)
    have m: "decimal n =
        [digit_char (n div 1000), digit_char (n div 100 mod 10),
         digit_char (n div 10 mod 10), digit_char (n mod 10)]"
      using decimal_ge_10 [of n] decimal_ge_10 [OF g] m1 d(1) by (simp add: e1)
    from d have "n div 1000 mod 10 = n div 1000" by simp
    then show ?thesis by (simp add: m)
  qed
qed

lemma toFixed_4_rendering:
  assumes "\<bar>a\<bar> < 10 ^ 21"
  shows "toFixed 4 (Finite a) = four_decimal_rendering a"
proof -
  define n where "n = nat \<lfloor>\<bar>a\<bar> * 10 ^ 4 + 1 / 2\<rfloor>"
  define ds where "ds = [digit_char (n div 1000 mod 10), digit_char (n div 100 mod 10),
      digit_char (n div 10 mod 10), digit_char (n mod 10)]"
  have lds: "length ds = 4" by (simp add: ds_def)
  have tf: "toFixed 4 (Finite a) =
      (if a < 0 then [45] else []) @
      (let m = decimal n;
           z = (if length m \<le> 4 then replicate (5 - length m) 48 @ m else m)
       in take (length z - 4) z @ [46] @ drop (length z - 4) z)"
    unfolding n_def by (rule toFixed_4_unfold [OF assms])
  have body: "(let m = decimal n;
           z = (if length m \<le> 4 then replicate (5 - length m) 48 @ m else m)
       in take (length z - 4) z @ [46] @ drop (length z - 4) z) =
      decimal (n div 10000) @ [46] @ ds"
  proof (cases "n < 10000")
    case True
    have p: "length (decimal n) \<le> 4"
      and q: "replicate (5 - length (decimal n)) 48 @ decimal n = 48 # ds"
      using padded_lt_10000 [OF True] by (simp_all add: ds_def)
    have "n div 10000 = 0" using True by simp
    then have "decimal (n div 10000) = [48]" by (simp add: decimal_lt_10 digit_char_def)
    then show ?thesis using p lds by (simp add: Let_def q)
  next
    case False
    then have m: "decimal n = decimal (n div 10000) @ ds"
      using decimal_ge_10000 [of n] by (simp add: ds_def)
    have "decimal (n div 10000) \<noteq> []" by (rule decimal_nonempty)
    then have "\<not> length (decimal n) \<le> 4" using lds by (simp add: m)
    then show ?thesis using lds by (simp add: Let_def) (simp add: m)
  qed
  show ?thesis
    unfolding tf body four_decimal_rendering_def rounded_4_def n_def [symmetric] ds_def
    by (simp add: str_def)
qed

lemma nearest_bound:
  fixes f y :: rat
  assumes "f \<le> y" and "y < f + 1"
  shows "\<bar>f / 10000 - (y - 1 / 2) / 10000\<bar> \<le> 1 / 20000"
proof -
  have a: "f / 10000 - (y - 1 / 2) / 10000 \<le> 1 / 20000"
    using assms by (simp add: field_simps)
  have b: "- (f / 10000 - (y - 1 / 2) / 10000) \<le> 1 / 20000"
    using assms by (simp add: field_simps)
  show ?thesis by (rule abs_leI [OF a b])
qed

lemma rounded_4_nearest: "\<bar>of_nat (rounded_4 a) / 10 ^ 4 - \<bar>a\<bar>\<bar> \<le> 1 / 20000"
proof -
  define y where "y = \<bar>a\<bar> * 10 ^ 4 + 1 / 2"
  define f :: rat where "f = of_int \<lfloor>y\<rfloor>"
  have "0 \<le> y" unfolding y_def by simp
  then have "0 \<le> \<lfloor>y\<rfloor>" by simp
  then have n: "(of_nat (rounded_4 a) :: rat) = f"
    unfolding rounded_4_def y_def f_def by simp
  have l: "f \<le> y" unfolding f_def by (rule of_int_floor_le)
  have u: "y < f + 1" unfolding f_def using floor_correct [of y] by simp
  have x: "\<bar>a\<bar> = (y - 1 / 2) / 10000" unfolding y_def by simp
  show ?thesis unfolding n x using nearest_bound [OF l u] by simp
qed

lemma floor_400000: "\<lfloor>800001 / 2 :: rat\<rfloor> = 400000" "\<lfloor>1480001 / 2 :: rat\<rfloor> = 740000"
  by code_simp+

lemma decimal_40_74: "decimal 40 = str ''40''" "decimal 74 = str ''74''"
  by (simp_all add: decimal.simps digit_char_def str_def)

lemma rendering_40_74:
  "four_decimal_rendering 40 = str ''40.0000''" "four_decimal_rendering (- 74) = str ''-74.0000''"
  by (simp_all add: four_decimal_rendering_def rounded_4_def floor_400000 decimal_40_74
      digit_char_def) (simp_all add: str_def)

text \<open>
  Claim C7, as amended. For every pair of finite coordinates of magnitude below \<open>10 ^ 21\<close>,
  \<open>formatCoordinates\<close> is the latitude, a comma and the longitude, each rendered with its
  sign and exactly four digits after the decimal point: the magnitude rounded to the nearest
  multiple of \<open>1 / 10 ^ 4\<close>. The doubles that the literals 40.71275 and -74.00601 denote
  give \<open>40.7127,-74.0060\<close>. The string is the path segment of the URL of the first request
  \<open>getGridPoint\<close> sends.
\<close>

theorem formatCoordinates_four_decimals:
  assumes "\<bar>a\<bar> < 10 ^ 21" and "\<bar>b\<bar> < 10 ^ 21"
  shows "formatCoordinates (Finite a) (Finite b) =
       four_decimal_rendering a @ str '','' @ four_decimal_rendering b \<and>
     four_decimals (four_decimal_rendering a) \<and> four_decimals (four_decimal_rendering b) \<and>
     \<bar>of_nat (rounded_4 a) / 10 ^ 4 - \<bar>a\<bar>\<bar> \<le> 1 / 20000 \<and>
     \<bar>of_nat (rounded_4 b) / 10 ^ 4 - \<bar>b\<bar>\<bar> \<le> 1 / 20000 \<and>
     denotes (4071275 / 100000) 5729810179038380 (- 47) \<and>
     denotes (- 7400601 / 100000) (- 5207709985299644) (- 46) \<and>
     formatCoordinates (Finite (binary64 5729810179038380 (- 47)))
         (Finite (binary64 (- 5207709985299644) (- 46))) = str ''40.7127,-74.0060'' \<and>
     (\<exists>rest. requests (snd (getGridPoint apiClient fetch (Finite a) (Finite b) w)) =
        requests w @
        \<lparr>url = NWS_API_BASE @ str ''/points/'' @ formatCoordinates (Finite a) (Finite b),
         headers = request_headers apiClient\<rparr> # rest)"
proof -
  have f: "formatCoordinates (Finite a) (Finite b) =
      four_decimal_rendering a @ str '','' @ four_decimal_rendering b"
    by (simp add: formatCoordinates_def COORDINATE_PRECISION_def
        toFixed_4_rendering [OF assms(1)] toFixed_4_rendering [OF assms(2)])
  have da: "four_decimals (four_decimal_rendering a)"
    using toFixed_four_decimals(1) [OF assms(1)] by (simp only: toFixed_4_rendering [OF assms(1)])
  have db: "four_decimals (four_decimal_rendering b)"
    using toFixed_four_decimals(1) [OF assms(2)] by (simp only: toFixed_4_rendering [OF assms(2)])
  have g: "\<exists>rest. requests (snd (getGridPoint apiClient fetch (Finite a) (Finite b) w)) =
        requests w @
        \<lparr>url = NWS_API_BASE @ str ''/points/'' @ formatCoordinates (Finite a) (Finite b),
         headers = request_headers apiClient\<rparr> # rest"
    using makeRequest_first_request
      [of apiClient fetch "NWS_API_BASE @ str ''/points/'' @ formatCoordinates (Finite a) (Finite b)" w]
    by (simp add: getGridPoint_def apiClient_def Let_def)
  show ?thesis
    using f da db g rounded_4_nearest [of a] rounded_4_nearest [of b]
      denotes_example formatCoordinates_example
    by blast
qed

theorem formatCoordinates_four_decimals_witness:
  "\<bar>40 :: rat\<bar> < 10 ^ 21 \<and> \<bar>- 74 :: rat\<bar> < 10 ^ 21 \<and>
   formatCoordinates (Finite 40) (Finite (- 74)) = str ''40.0000,-74.0000'' \<and>
   four_decimals (str ''40.0000'') \<and> four_decimals (str ''-74.0000'')"
proof -
  have h1: "\<bar>40 :: rat\<bar> < 10 ^ 21" by simp
  have h2: "\<bar>- 74 :: rat\<bar> < 10 ^ 21" by simp
  have "formatCoordinates (Finite 40) (Finite (- 74)) =
       four_decimal_rendering 40 @ str '','' @ four_decimal_rendering (- 74) \<and>
     four_decimals (four_decimal_rendering 40) \<and> four_decimals (four_decimal_rendering (- 74))"
    using formatCoordinates_four_decimals [OF h1 h2, of upstream_without_url empty_world]
    by blast
  then show ?thesis using h1 h2 by (simp add: rendering_40_74) (simp add: str_def)
qed

text \<open>
  The claim as stated fails twice. The double nearest to 40.71275 lies below it, so the
  example gives \<open>40.7127\<close>, not \<open>40.7128\<close>; and the finite value \<open>10 ^ 21\<close> is rendered
  in exponent form, with no digit after a decimal point.
\<close>

theorem formatCoordinates_counterexample:
  "denotes (4071275 / 100000) 5729810179038380 (- 47) \<and>
   denotes (- 7400601 / 100000) (- 5207709985299644) (- 46) \<and>
   formatCoordinates (Finite (binary64 5729810179038380 (- 47)))
       (Finite (binary64 (- 5207709985299644) (- 46))) = str ''40.7127,-74.0060'' \<and>
   formatCoordinates (Finite (binary64 5729810179038380 (- 47)))
       (Finite (binary64 (- 5207709985299644) (- 46))) \<noteq> str ''40.7128,-74.0060'' \<and>
   formatCoordinates (Finite (10 ^ 21)) (Finite 0) = str ''1e+21,0.0000'' \<and>
   \<not> four_decimals (toFixed 4 (Finite (10 ^ 21)))"
proof -
  have n: "str ''40.7127,-74.0060'' \<noteq> str ''40.7128,-74.0060''" by (simp add: str_def)
  have e: "\<not> four_decimals (toFixed 4 (Finite (10 ^ 21)))"
    unfolding toFixed_1e21 by (simp add: four_decimals_def str_def)
  show ?thesis
    using denotes_example formatCoordinates_example n e formatCoordinates_1e21 by simp
qed

end
